theory Spec2Isabelle
  imports Main "HOL-Library.Sublist" "HOL-Library.Char_ord" "HOL-Library.List_Lexorder"
begin

section \<open>JavaScript values, strings and exceptions\<close>

text \<open>
  The worker is a single JavaScript module. Its strings are modelled as \<^typ>\<open>string\<close>
  (for text outside ASCII: the bytes of its UTF-8 encoding), its numbers as \<^typ>\<open>int\<close>
  (millisecond clocks and Telegram message ids are the only numbers the handlers compute
  with), and a thrown exception as a value of \<open>js_error\<close>: whether it is a
  \<open>TypeError\<close>, and its \<open>message\<close>. A computation that may throw returns
  \<open>js_error + 'a\<close>, with \<open>Inl\<close> for the exception.
\<close>

datatype js_error = Exn (is_TypeError: bool) (message: string)

text \<open>
  What a property read on a plain object literal can give: nothing, one of the strings the
  literal holds, or a member inherited from \<open>Object.prototype\<close> (a native function, or
  the prototype object itself for the accessor \<open>__proto__\<close>).
\<close>

datatype js_val = Undefined | Str string | NativeFunction string | ObjectPrototype

definition Object_prototype :: "(string \<times> js_val) list" where
  "Object_prototype =
    [(''constructor'', NativeFunction ''Object''),
     (''__proto__'', ObjectPrototype),
     (''hasOwnProperty'', NativeFunction ''hasOwnProperty''),
     (''isPrototypeOf'', NativeFunction ''isPrototypeOf''),
     (''propertyIsEnumerable'', NativeFunction ''propertyIsEnumerable''),
     (''toLocaleString'', NativeFunction ''toLocaleString''),
     (''toString'', NativeFunction ''toString''),
     (''valueOf'', NativeFunction ''valueOf''),
     (''__defineGetter__'', NativeFunction ''__defineGetter__''),
     (''__defineSetter__'', NativeFunction ''__defineSetter__''),
     (''__lookupGetter__'', NativeFunction ''__lookupGetter__''),
     (''__lookupSetter__'', NativeFunction ''__lookupSetter__'')]"

text \<open>\<open>obj[key]\<close> on an object literal with the own properties \<open>own\<close>: own properties first,
  then the prototype chain.\<close>

definition get_property :: "(string \<times> string) list \<Rightarrow> string \<Rightarrow> js_val" where
  "get_property own k =
    (case map_of own k of
       Some v \<Rightarrow> Str v
     | None \<Rightarrow> (case map_of Object_prototype k of Some v \<Rightarrow> v | None \<Rightarrow> Undefined))"

text \<open>Truthiness, as \<open>||\<close>, \<open>!\<close> and \<open>?:\<close> test it.\<close>

fun truthy :: "js_val \<Rightarrow> bool" where
  "truthy Undefined = False"
| "truthy (Str s) = (s \<noteq> [])"
| "truthy (NativeFunction _) = True"
| "truthy ObjectPrototype = True"

definition js_or :: "js_val \<Rightarrow> js_val \<Rightarrow> js_val" where
  "js_or a b = (if truthy a then a else b)"

text \<open>String conversion of a value, as a template literal or a header value performs it.\<close>

fun to_display :: "js_val \<Rightarrow> string" where
  "to_display Undefined = ''undefined''"
| "to_display (Str s) = s"
| "to_display (NativeFunction n) = ''function '' @ n @ ''() { [native code] }''"
| "to_display ObjectPrototype = ''[object Object]''"

text \<open>The lower-case form of an ASCII letter; every other character is kept. This is the
  folding of \<open>sqlite3Tolower\<close>, and of \<open>String.prototype.toLowerCase\<close> on ASCII.\<close>

definition lower_char :: "char \<Rightarrow> char" where
  "lower_char c =
    (case map_of (zip ''ABCDEFGHIJKLMNOPQRSTUVWXYZ'' ''abcdefghijklmnopqrstuvwxyz'') c of
       Some l \<Rightarrow> l
     | None \<Rightarrow> c)"

text \<open>The capital letters of the Latin-1 Supplement (U+00C0 to U+00DE without the
  multiplication sign) are two bytes in UTF-8, the first \<open>0xC3\<close>; this is the second byte
  of the letter and of its lower-case form.\<close>

definition latin1_lower :: "(char \<times> char) list" where
  "latin1_lower =
    zip
     [CHR 0x80, CHR 0x81, CHR 0x82, CHR 0x83, CHR 0x84, CHR 0x85, CHR 0x86, CHR 0x87,
      CHR 0x88, CHR 0x89, CHR 0x8A, CHR 0x8B, CHR 0x8C, CHR 0x8D, CHR 0x8E, CHR 0x8F,
      CHR 0x90, CHR 0x91, CHR 0x92, CHR 0x93, CHR 0x94, CHR 0x95, CHR 0x96, CHR 0x98,
      CHR 0x99, CHR 0x9A, CHR 0x9B, CHR 0x9C, CHR 0x9D, CHR 0x9E]
     [CHR 0xA0, CHR 0xA1, CHR 0xA2, CHR 0xA3, CHR 0xA4, CHR 0xA5, CHR 0xA6, CHR 0xA7,
      CHR 0xA8, CHR 0xA9, CHR 0xAA, CHR 0xAB, CHR 0xAC, CHR 0xAD, CHR 0xAE, CHR 0xAF,
      CHR 0xB0, CHR 0xB1, CHR 0xB2, CHR 0xB3, CHR 0xB4, CHR 0xB5, CHR 0xB6, CHR 0xB8,
      CHR 0xB9, CHR 0xBA, CHR 0xBB, CHR 0xBC, CHR 0xBD, CHR 0xBE]"

text \<open>
  \<open>String.prototype.toLowerCase\<close> on the ASCII letters and on the letters of the Latin-1
  Supplement. Every other character is kept; the cased letters of other scripts, which the
  function folds too, are outside the model.
\<close>

fun toLowerCase :: "string \<Rightarrow> string" where
  "toLowerCase [] = []"
| "toLowerCase [c] = [lower_char c]"
| "toLowerCase (c # d # cs) =
    (if c = CHR 0xC3 then
       (case map_of latin1_lower d of
          Some l \<Rightarrow> c # l # toLowerCase cs
        | None \<Rightarrow> c # toLowerCase (d # cs))
     else lower_char c # toLowerCase (d # cs))"

text \<open>\<open>s.split(d)\<close> for a one-character separator: never the empty array.\<close>

fun split_on :: "char \<Rightarrow> string \<Rightarrow> string list" where
  "split_on d [] = [[]]"
| "split_on d (c # cs) =
    (if c = d then [] # split_on d cs
     else (case split_on d cs of p # ps \<Rightarrow> (c # p) # ps | [] \<Rightarrow> [[c]]))"

text \<open>\<open>Array.prototype.pop\<close>: the last element, \<open>undefined\<close> on the empty array.\<close>

definition pop :: "string list \<Rightarrow> js_val" where
  "pop xs = (if xs = [] then Undefined else Str (last xs))"

text \<open>\<open>s.includes(sub)\<close>.\<close>

fun js_includes :: "string \<Rightarrow> string \<Rightarrow> bool" where
  "js_includes [] sub = (sub = [])"
| "js_includes (c # cs) sub = (prefix sub (c # cs) \<or> js_includes cs sub)"

text \<open>The decimal rendering of a number in a template literal.\<close>

fun show_nat :: "nat \<Rightarrow> string" where
  "show_nat n =
    (if n < 10 then [''0123456789'' ! n]
     else show_nat (n div 10) @ [''0123456789'' ! (n mod 10)])"

declare show_nat.simps [simp del]

definition show_int :: "int \<Rightarrow> string" where
  "show_int i = (if i < 0 then CHR ''-'' # show_nat (nat (- i)) else show_nat (nat i))"

section \<open>Content Classifier\<close>

text \<open>\<open>getContentType(ext)\<close>: \<open>types[ext] || 'application/octet-stream'\<close>.\<close>

definition types :: "(string \<times> string) list" where
  "types =
    [(''jpg'', ''image/jpeg''), (''jpeg'', ''image/jpeg''), (''png'', ''image/png''),
     (''gif'', ''image/gif''), (''webp'', ''image/webp''), (''svg'', ''image/svg+xml''),
     (''icon'', ''image/x-icon''),
     (''mp4'', ''video/mp4''), (''webm'', ''video/webm''), (''mp3'', ''audio/mpeg''),
     (''wav'', ''audio/wav''), (''ogg'', ''audio/ogg''),
     (''pdf'', ''application/pdf''), (''txt'', ''text/plain''), (''md'', ''text/markdown''),
     (''zip'', ''application/zip''), (''rar'', ''application/x-rar-compressed''),
     (''json'', ''application/json''), (''xml'', ''application/xml''), (''ini'', ''text/plain''),
     (''js'', ''application/javascript''), (''yml'', ''application/yaml''),
     (''yaml'', ''application/yaml''),
     (''py'', ''text/x-python''), (''sh'', ''application/x-sh'')]"

definition getContentType :: "string \<Rightarrow> js_val" where
  "getContentType ext = js_or (get_property types ext) (Str ''application/octet-stream'')"

text \<open>
  The upload handler's choice of Telegram method and form field:
  \<open>const [mainType] = mimeType.split('/')\<close> throws a \<open>TypeError\<close> when \<open>mimeType\<close> is
  not a string; \<open>typeMap[mainType] || {}\<close> with the defaults \<open>sendDocument\<close>/\<open>document\<close>
  of the destructuring; then the override for \<open>application\<close> and \<open>text\<close>.
\<close>

definition mainType_of :: "js_val \<Rightarrow> js_error + string" where
  "mainType_of mimeType =
    (case mimeType of
       Str s \<Rightarrow> Inr (hd (split_on CHR ''/'' s))
     | _ \<Rightarrow>
        Inl (Exn True
          ''mimeType.split is not a function or its return value is not iterable''))"

definition typeMap :: "(string \<times> string \<times> string) list" where
  "typeMap =
    [(''image'', ''sendPhoto'', ''photo''),
     (''video'', ''sendVideo'', ''video''),
     (''audio'', ''sendAudio'', ''audio'')]"

definition upload_method :: "string \<Rightarrow> string \<times> string" where
  "upload_method mainType =
    (let mf = (case map_of typeMap mainType of
                 Some mf \<Rightarrow> mf
               | None \<Rightarrow> (''sendDocument'', ''document''))
     in if mainType \<in> set [''application'', ''text'']
        then (''sendDocument'', ''document'') else mf)"

text \<open>\<open>(file.name.split('.').pop() || '').toLowerCase()\<close>.\<close>

definition file_ext :: "string \<Rightarrow> string" where
  "file_ext name = toLowerCase (to_display (js_or (pop (split_on CHR ''.'' name)) (Str [])))"

text \<open>The classifier as the upload handler composes it: MIME type, method and field.\<close>

definition classify :: "string \<Rightarrow> js_error + (string \<times> string \<times> string)" where
  "classify ext =
    (let mimeType = getContentType ext in
     case mainType_of mimeType of
       Inl e \<Rightarrow> Inl e
     | Inr mainType \<Rightarrow> Inr (to_display mimeType, upload_method mainType))"

section \<open>Requests, configuration and the runtime\<close>

text \<open>
  A value produced by \<open>JSON.parse\<close> or \<open>response.json()\<close>. An object is the list of its
  own properties. Numbers are integers; fractional and non-finite numbers are outside the
  model.
\<close>

datatype json =
    JNull
  | JBool bool
  | JNum int
  | JStr string
  | JArr "json list"
  | JObj "(string \<times> json) list"

text \<open>
  Reading the property \<open>k\<close> of a parsed value, for the keys the handlers read
  (\<open>expiration\<close>, \<open>username\<close>, \<open>url\<close>, \<open>query\<close>, \<open>description\<close>): none of them is
  inherited from a built-in prototype, so the read gives an own property of an object or
  \<open>undefined\<close> (\<open>None\<close>), and throws a \<open>TypeError\<close> on \<open>null\<close>.
\<close>

definition quoted :: "string \<Rightarrow> string" where
  "quoted s = [CHR 0x27] @ s @ [CHR 0x27]"

definition json_field :: "json \<Rightarrow> string \<Rightarrow> js_error + json option" where
  "json_field v k =
    (case v of
       JNull \<Rightarrow> Inl (Exn True (''Cannot read properties of null (reading '' @ quoted k @ '')''))
     | JObj kvs \<Rightarrow> Inr (map_of kvs k)
     | _ \<Rightarrow> Inr None)"

text \<open>\<open>const { k } = await request.json()\<close>: the same read, with the engine's other
  message on \<open>null\<close>.\<close>

definition json_destructure :: "json \<Rightarrow> string \<Rightarrow> js_error + json option" where
  "json_destructure v k =
    (case v of
       JNull \<Rightarrow>
        Inl (Exn True (''Cannot destructure property '' @ quoted k @ '' of ''
               @ quoted ''(intermediate value)'' @ '' as it is null.''))
     | JObj kvs \<Rightarrow> Inr (map_of kvs k)
     | _ \<Rightarrow> Inr None)"

text \<open>\<open>Array.prototype.join\<close> with the separator \<open>,\<close>.\<close>

fun join_comma :: "string list \<Rightarrow> string" where
  "join_comma [] = []"
| "join_comma [x] = x"
| "join_comma (x # y # ys) = x @ '','' @ join_comma (y # ys)"

text \<open>String conversion of a parsed value (\<open>None\<close> is \<open>undefined\<close>), as a template literal
  performs it; inside an array \<open>null\<close> is rendered as the empty string.\<close>

fun json_to_string :: "json \<Rightarrow> string" where
  "json_to_string JNull = ''null''"
| "json_to_string (JBool b) = (if b then ''true'' else ''false'')"
| "json_to_string (JNum n) = show_int n"
| "json_to_string (JStr s) = s"
| "json_to_string (JArr xs) =
    join_comma (map (\<lambda>x. if x = JNull then [] else json_to_string x) xs)"
| "json_to_string (JObj kvs) = ''[object Object]''"

definition template :: "json option \<Rightarrow> string" where
  "template v = (case v of None \<Rightarrow> ''undefined'' | Some j \<Rightarrow> json_to_string j)"

text \<open>
  The parts of the platform that are not modelled are parameters: \<open>JSON.parse(atob(s))\<close>,
  which throws or gives a value, and the conversion of a string to a number
  (\<open>None\<close> is \<open>NaN\<close>).
\<close>

record runtime =
  JSON_parse_atob :: "string \<Rightarrow> js_error + json"
  StringToNumber :: "string \<Rightarrow> int option"

text \<open>\<open>ToNumber\<close>, as the comparison \<open>now > tokenData.expiration\<close> applies it to its right
  operand; \<open>None\<close> is \<open>NaN\<close>.\<close>

definition ToNumber :: "runtime \<Rightarrow> json option \<Rightarrow> int option" where
  "ToNumber rt v =
    (case v of
       None \<Rightarrow> None
     | Some JNull \<Rightarrow> Some 0
     | Some (JBool b) \<Rightarrow> Some (if b then 1 else 0)
     | Some (JNum n) \<Rightarrow> Some n
     | Some (JStr s) \<Rightarrow> StringToNumber rt s
     | Some (JArr xs) \<Rightarrow> StringToNumber rt (json_to_string (JArr xs))
     | Some (JObj kvs) \<Rightarrow> None)"

definition js_gt :: "runtime \<Rightarrow> int \<Rightarrow> json option \<Rightarrow> bool" where
  "js_gt rt n v = (case ToNumber rt v of None \<Rightarrow> False | Some m \<Rightarrow> n > m)"

text \<open>\<open>v === s\<close> for a parsed value and a configuration string that may be
  \<open>undefined\<close>.\<close>

definition strict_eq :: "json option \<Rightarrow> string option \<Rightarrow> bool" where
  "strict_eq v s =
    (case (v, s) of
       (None, None) \<Rightarrow> True
     | (Some (JStr a), Some b) \<Rightarrow> a = b
     | _ \<Rightarrow> False)"

text \<open>What \<open>formData.get('file')\<close> gives: nothing, a text field, or a file.\<close>

record upload_file =
  file_name_of :: string
  file_size_of :: int
  file_type_of :: string

datatype form_entry = NoEntry | TextEntry string | FileEntry upload_file

record request =
  req_method :: string
  req_url :: string
  req_origin :: string
  req_cookie :: "string option"
  req_json :: "js_error + json"
  req_formData :: "js_error + form_entry"

record config =
  origin :: string
  username :: "string option"
  enableAuth :: bool
  tgBotToken :: string
  tgChatId :: string

section \<open>Authentication\<close>

text \<open>
  \<open>cookies.match(/auth_token=([^;]+)/)\<close>: the capture group of the leftmost match, if
  there is one. A match starts where \<open>auth_token=\<close> is followed by at least one
  character other than \<open>;\<close>, and the group takes all of them.
\<close>

fun match_auth_token :: "string \<Rightarrow> string option" where
  "match_auth_token [] = None"
| "match_auth_token (c # cs) =
    (if prefix ''auth_token='' (c # cs)
        \<and> takeWhile (\<lambda>x. x \<noteq> CHR '';'') (drop 11 (c # cs)) \<noteq> []
     then Some (takeWhile (\<lambda>x. x \<noteq> CHR '';'') (drop 11 (c # cs)))
     else match_auth_token cs)"

text \<open>The body of the \<open>try\<close> block of \<open>authenticate\<close>; \<open>now\<close> is \<open>Date.now()\<close>.\<close>

definition authenticate_try ::
  "runtime \<Rightarrow> int \<Rightarrow> string \<Rightarrow> config \<Rightarrow> js_error + bool" where
  "authenticate_try rt now token conf =
    (case JSON_parse_atob rt token of
       Inl e \<Rightarrow> Inl e
     | Inr tokenData \<Rightarrow>
        (case json_field tokenData ''expiration'' of
           Inl e \<Rightarrow> Inl e
         | Inr expiration \<Rightarrow>
            if js_gt rt now expiration then Inr False
            else (case json_field tokenData ''username'' of
                    Inl e \<Rightarrow> Inl e
                  | Inr name \<Rightarrow> Inr (strict_eq name (username conf)))))"

definition authenticate ::
  "runtime \<Rightarrow> int \<Rightarrow> request \<Rightarrow> config \<Rightarrow> js_error + bool" where
  "authenticate rt now request conf =
    (let cookies = (case req_cookie request of None \<Rightarrow> [] | Some c \<Rightarrow> c) in
     case match_auth_token cookies of
       None \<Rightarrow> Inr False
     | Some token \<Rightarrow>
        (case authenticate_try rt now token conf of
           Inl e \<Rightarrow> Inr False
         | Inr b \<Rightarrow> Inr b))"

text \<open>\<open>config.enableAuth && !authenticate(request, config)\<close>, the guard of the upload,
  delete and search handlers.\<close>

definition auth_blocked ::
  "runtime \<Rightarrow> int \<Rightarrow> request \<Rightarrow> config \<Rightarrow> js_error + bool" where
  "auth_blocked rt now request conf =
    (if enableAuth conf
     then (case authenticate rt now request conf of Inl e \<Rightarrow> Inl e | Inr b \<Rightarrow> Inr (\<not> b))
     else Inr False)"

section \<open>Metadata Index, Edge Cache and responses\<close>

text \<open>A row of the table \<open>files\<close>; the three last columns are nullable.\<close>

record file_row =
  url :: string
  fileId :: string
  message_id :: int
  created_at :: string
  file_name :: "string option"
  file_size :: "int option"
  mime_type :: "string option"

text \<open>
  A response body. The JSON bodies are kept as the value given to \<open>JSON.stringify\<close>:
  \<open>UploadOk url\<close> is \<open>{status: 1, msg, url}\<close>, \<open>UploadFailed e\<close> is
  \<open>{status: 0, msg, error: e}\<close>, \<open>ErrorJson e\<close> is \<open>{error: e}\<close>, \<open>DeleteOk m\<close> is
  \<open>{success: true, message: m}\<close> and \<open>FilesJson rows\<close> is \<open>{files: rows}\<close>.
\<close>

datatype body =
    NoBody
  | Text string
  | Page string
  | Bytes string
  | UploadOk string
  | UploadFailed string
  | ErrorJson string
  | DeleteOk string
  | FilesJson "file_row list"

record response =
  status :: nat
  headers :: "(string \<times> string) list"
  body :: body

record store =
  files :: "file_row list"
  edge_cache :: "(string \<times> response) list"

text \<open>The calls a handler makes to its collaborators, in order.\<close>

datatype call =
    CacheMatch string
  | CachePut string
  | DbInsert file_row
  | DbSelectByUrl string
  | DbDeleteByUrl string
  | DbSearch string
  | TgSend string string string
  | TgGetFile string
  | TgDownload string
  | TgDeleteMessage string int

text \<open>The parsed body of a Telegram reply: \<open>null\<close>, or an object with its \<open>result\<close>
  (\<open>None\<close> when the property is missing).\<close>

datatype 'a tg_reply = ReplyNull | Reply "'a option"

record tg_result =
  result_message_id :: "int option"
  document_file_id :: "string option"
  video_file_id :: "string option"
  audio_file_id :: "string option"
  photo_file_ids :: "string option list option"

record tg_send_response =
  send_ok :: bool
  send_json :: "js_error + tg_result tg_reply"

record tg_getFile_response =
  getFile_ok :: bool
  getFile_json :: "js_error + string option tg_reply"

record download_response =
  download_ok :: bool
  download_body :: string

record tg_delete_response =
  delete_ok :: bool
  delete_json :: "js_error + json"

text \<open>
  What the world outside the worker answers during one request: the clock readings, the
  outcome of each \<open>fetch\<close> (an exception or a response), and whether the database or the
  cache service fails (an exception thrown by the call, apart from the constraint
  violations and limits of the database itself, which \<open>db_insert\<close> and \<open>db_search\<close>
  below decide). \<open>timestamp\<close> is
  \<open>new Date(Date.now() + 8 * 60 * 60 * 1000).toISOString()\<close>, and \<open>response_refused\<close>
  tells for which headers \<open>new Response\<close> throws (a header value it does not accept).
\<close>

record env =
  now :: int
  time :: int
  timestamp :: string
  tg_send :: "js_error + tg_send_response"
  tg_getFile :: "js_error + tg_getFile_response"
  tg_download :: "js_error + download_response"
  tg_deleteMessage :: "js_error + tg_delete_response"
  db_read_fault :: "js_error option"
  db_write_fault :: "js_error option"
  cache_match_fault :: "js_error option"
  cache_put_fault :: "js_error option"
  response_refused :: "(string \<times> string) list \<Rightarrow> js_error option"

subsection \<open>The statements on the table\<close>

text \<open>\<open>INSERT INTO files ...\<close>: \<open>url\<close> is the primary key, and a second row under
  the same one is refused.\<close>

definition msg_unique :: string where
  "msg_unique =
    ''D1_ERROR: UNIQUE constraint failed: files.url: SQLITE_CONSTRAINT ''
      @ ''(extended: SQLITE_CONSTRAINT_PRIMARYKEY)''"

definition db_insert :: "file_row \<Rightarrow> file_row list \<Rightarrow> js_error + file_row list" where
  "db_insert r rows =
    (if url r \<in> set (map url rows)
     then Inl (Exn False msg_unique)
     else Inr (rows @ [r]))"

text \<open>\<open>SELECT ... FROM files WHERE url = ?\<close> with \<open>.first()\<close>.\<close>

definition db_first_by_url :: "string \<Rightarrow> file_row list \<Rightarrow> file_row option" where
  "db_first_by_url u rows = find (\<lambda>r. url r = u) rows"

text \<open>\<open>DELETE FROM files WHERE url = ?\<close>.\<close>

definition db_delete_by_url :: "string \<Rightarrow> file_row list \<Rightarrow> file_row list" where
  "db_delete_by_url u rows = filter (\<lambda>r. url r \<noteq> u) rows"

text \<open>
  The text after its first character, for UTF-8: a byte from \<open>0xC0\<close> on starts a
  character that runs over the continuation bytes (\<open>0x80\<close> to \<open>0xBF\<close>) that follow,
  as \<open>sqlite3Utf8Read\<close> reads it.
\<close>

definition is_continuation :: "char \<Rightarrow> bool" where
  "is_continuation b = ((128::nat) \<le> of_char b \<and> of_char b < (192::nat))"

fun utf8_rest :: "string \<Rightarrow> string" where
  "utf8_rest [] = []"
| "utf8_rest (c # cs) =
    (if (192::nat) \<le> of_char c then dropWhile is_continuation cs else cs)"

text \<open>
  The operator \<open>LIKE ? ESCAPE '!'\<close> of SQLite on a pattern and a text, both well-formed
  UTF-8: \<open>%\<close> matches any run of characters, \<open>_\<close> one character, the escape character
  makes the next pattern character literal (and a pattern that ends in it matches nothing),
  every other character matches itself; letters are compared without case, on ASCII only.
\<close>

function like :: "string \<Rightarrow> string \<Rightarrow> bool" where
  "like [] s = (s = [])"
| "like (p # ps) [] = (p = CHR ''%'' \<and> like ps [])"
| "like (p # ps) (c # cs) =
    (if p = CHR ''%'' then like ps (c # cs) \<or> like (p # ps) (utf8_rest (c # cs))
     else if p = CHR ''!'' then
       (case ps of [] \<Rightarrow> False | q # qs \<Rightarrow> lower_char q = lower_char c \<and> like qs cs)
     else if p = CHR ''_'' then like ps (utf8_rest (c # cs))
     else lower_char p = lower_char c \<and> like ps cs)"
  by pat_completeness auto
termination
  by (relation "measure length <*lex*> measure length")
    (auto simp: length_dropWhile_le less_Suc_eq_le)

text \<open>\<open>WHERE file_name LIKE ?\<close>: a \<open>NULL\<close> name satisfies no \<open>LIKE\<close>.\<close>

definition name_like :: "string \<Rightarrow> file_row \<Rightarrow> bool" where
  "name_like pattern r = (case file_name r of None \<Rightarrow> False | Some n \<Rightarrow> like pattern n)"

text \<open>\<open>ORDER BY created_at DESC\<close>; the column holds ISO timestamps, compared as text.\<close>

definition order_by_created_at_desc :: "file_row list \<Rightarrow> file_row list" where
  "order_by_created_at_desc rows = rev (sort_key created_at rows)"

text \<open>The \<open>SELECT\<close> of the search. D1 refuses a \<open>LIKE\<close> pattern of more than 50
  bytes.\<close>

definition msg_like_too_complex :: string where
  "msg_like_too_complex = ''D1_ERROR: LIKE or GLOB pattern too complex: SQLITE_ERROR''"

definition db_search :: "string \<Rightarrow> file_row list \<Rightarrow> js_error + file_row list" where
  "db_search pattern rows =
    (if length pattern > 50 then Inl (Exn False msg_like_too_complex)
     else Inr (order_by_created_at_desc (filter (name_like pattern) rows)))"

subsection \<open>Messages and responses\<close>

definition msg_no_file :: string where
  "msg_no_file = [CHR 0xE6, CHR 0x9C, CHR 0xAA, CHR 0xE6, CHR 0x89, CHR 0xBE, CHR 0xE5,
     CHR 0x88, CHR 0xB0, CHR 0xE6, CHR 0x96, CHR 0x87, CHR 0xE4, CHR 0xBB, CHR 0xB6]"

definition msg_tg_config :: string where
  "msg_tg_config = ''Telegram'' @ [CHR 0xE5, CHR 0x8F, CHR 0x82, CHR 0xE6, CHR 0x95, CHR 0xB0,
     CHR 0xE9, CHR 0x85, CHR 0x8D, CHR 0xE7, CHR 0xBD, CHR 0xAE, CHR 0xE9, CHR 0x94, CHR 0x99,
     CHR 0xE8, CHR 0xAF, CHR 0xAF]"

definition msg_no_file_id :: string where
  "msg_no_file_id = [CHR 0xE6, CHR 0x9C, CHR 0xAA, CHR 0xE8, CHR 0x8E, CHR 0xB7, CHR 0xE5,
     CHR 0x8F, CHR 0x96, CHR 0xE5, CHR 0x88, CHR 0xB0, CHR 0xE6, CHR 0x96, CHR 0x87, CHR 0xE4,
     CHR 0xBB, CHR 0xB6] @ ''ID''"

definition msg_no_message_id :: string where
  "msg_no_message_id = [CHR 0xE6, CHR 0x9C, CHR 0xAA, CHR 0xE8, CHR 0x8E, CHR 0xB7, CHR 0xE5,
     CHR 0x8F, CHR 0x96, CHR 0xE5, CHR 0x88, CHR 0xB0] @ ''tg'' @ [CHR 0xE6, CHR 0xB6,
     CHR 0x88, CHR 0xE6, CHR 0x81, CHR 0xAF] @ ''ID''"

definition msg_upload_ok :: string where
  "msg_upload_ok = [CHR 0xE2, CHR 0x9C, CHR 0x94] @ '' '' @ [CHR 0xE4, CHR 0xB8, CHR 0x8A,
     CHR 0xE4, CHR 0xBC, CHR 0xA0, CHR 0xE6, CHR 0x88, CHR 0x90, CHR 0xE5, CHR 0x8A,
     CHR 0x9F]"

definition msg_upload_failed :: string where
  "msg_upload_failed = [CHR 0xE2, CHR 0x9C, CHR 0x98] @ '' '' @ [CHR 0xE4, CHR 0xB8, CHR 0x8A,
     CHR 0xE4, CHR 0xBC, CHR 0xA0, CHR 0xE5, CHR 0xA4, CHR 0xB1, CHR 0xE8, CHR 0xB4,
     CHR 0xA5]"

definition msg_file_missing :: string where
  "msg_file_missing = [CHR 0xE6, CHR 0x96, CHR 0x87, CHR 0xE4, CHR 0xBB, CHR 0xB6, CHR 0xE4,
     CHR 0xB8, CHR 0x8D, CHR 0xE5, CHR 0xAD, CHR 0x98, CHR 0xE5, CHR 0x9C, CHR 0xA8]"

definition msg_get_file_failed :: string where
  "msg_get_file_failed = [CHR 0xE8, CHR 0x8E, CHR 0xB7, CHR 0xE5, CHR 0x8F, CHR 0x96,
     CHR 0xE6, CHR 0x96, CHR 0x87, CHR 0xE4, CHR 0xBB, CHR 0xB6, CHR 0xE5, CHR 0xA4, CHR 0xB1,
     CHR 0xE8, CHR 0xB4, CHR 0xA5]"

definition msg_bad_path :: string where
  "msg_bad_path = [CHR 0xE6, CHR 0x96, CHR 0x87, CHR 0xE4, CHR 0xBB, CHR 0xB6, CHR 0xE8,
     CHR 0xB7, CHR 0xAF, CHR 0xE5, CHR 0xBE, CHR 0x84, CHR 0xE6, CHR 0x97, CHR 0xA0, CHR 0xE6,
     CHR 0x95, CHR 0x88]"

definition msg_download_failed :: string where
  "msg_download_failed = [CHR 0xE4, CHR 0xB8, CHR 0x8B, CHR 0xE8, CHR 0xBD, CHR 0xBD,
     CHR 0xE6, CHR 0x96, CHR 0x87, CHR 0xE4, CHR 0xBB, CHR 0xB6, CHR 0xE5, CHR 0xA4, CHR 0xB1,
     CHR 0xE8, CHR 0xB4, CHR 0xA5]"

definition msg_internal_error :: string where
  "msg_internal_error = [CHR 0xE6, CHR 0x9C, CHR 0x8D, CHR 0xE5, CHR 0x8A, CHR 0xA1, CHR 0xE5,
     CHR 0x99, CHR 0xA8, CHR 0xE5, CHR 0x86, CHR 0x85, CHR 0xE9, CHR 0x83, CHR 0xA8, CHR 0xE9,
     CHR 0x94, CHR 0x99, CHR 0xE8, CHR 0xAF, CHR 0xAF]"

definition msg_invalid_url :: string where
  "msg_invalid_url = [CHR 0xE6, CHR 0x97, CHR 0xA0, CHR 0xE6, CHR 0x95, CHR 0x88, CHR 0xE7,
     CHR 0x9A, CHR 0x84] @ ''URL''"

definition msg_tg_delete_failed :: string where
  "msg_tg_delete_failed = ''Telegram '' @ [CHR 0xE6, CHR 0xB6, CHR 0x88, CHR 0xE6, CHR 0x81,
     CHR 0xAF, CHR 0xE5, CHR 0x88, CHR 0xA0, CHR 0xE9, CHR 0x99, CHR 0xA4, CHR 0xE5, CHR 0xA4,
     CHR 0xB1, CHR 0xE8, CHR 0xB4, CHR 0xA5] @ '': ''"

definition msg_db_deleted_tg_failed :: string where
  "msg_db_deleted_tg_failed = [CHR 0xE6, CHR 0x96, CHR 0x87, CHR 0xE4, CHR 0xBB, CHR 0xB6,
     CHR 0xE5, CHR 0xB7, CHR 0xB2, CHR 0xE4, CHR 0xBB, CHR 0x8E, CHR 0xE6, CHR 0x95, CHR 0xB0,
     CHR 0xE6, CHR 0x8D, CHR 0xAE, CHR 0xE5, CHR 0xBA, CHR 0x93, CHR 0xE5, CHR 0x88, CHR 0xA0,
     CHR 0xE9, CHR 0x99, CHR 0xA4, CHR 0xEF, CHR 0xBC, CHR 0x8C, CHR 0xE4, CHR 0xBD,
     CHR 0x86] @ ''Telegram'' @ [CHR 0xE6, CHR 0xB6, CHR 0x88, CHR 0xE6, CHR 0x81, CHR 0xAF,
     CHR 0xE5, CHR 0x88, CHR 0xA0, CHR 0xE9, CHR 0x99, CHR 0xA4, CHR 0xE5, CHR 0xA4, CHR 0xB1,
     CHR 0xE8, CHR 0xB4, CHR 0xA5] @ '': ''"

definition msg_delete_ok :: string where
  "msg_delete_ok = [CHR 0xE6, CHR 0x96, CHR 0x87, CHR 0xE4, CHR 0xBB, CHR 0xB6, CHR 0xE5,
     CHR 0x88, CHR 0xA0, CHR 0xE9, CHR 0x99, CHR 0xA4, CHR 0xE6, CHR 0x88, CHR 0x90, CHR 0xE5,
     CHR 0x8A, CHR 0x9F]"

definition msg_removed_from_channel :: string where
  "msg_removed_from_channel = [CHR 0xE6, CHR 0x96, CHR 0x87, CHR 0xE4, CHR 0xBB, CHR 0xB6,
     CHR 0xE5, CHR 0xB7, CHR 0xB2, CHR 0xE4, CHR 0xBB, CHR 0x8E, CHR 0xE9, CHR 0xA2, CHR 0x91,
     CHR 0xE9, CHR 0x81, CHR 0x93, CHR 0xE7, CHR 0xA7, CHR 0xBB, CHR 0xE9, CHR 0x99,
     CHR 0xA4]"


definition json_headers :: "(string \<times> string) list" where
  "json_headers = [(''Content-Type'', ''application/json'')]"

definition text_headers :: "(string \<times> string) list" where
  "text_headers = [(''Content-Type'', ''text/plain; charset=UTF-8'')]"

definition html_headers :: "(string \<times> string) list" where
  "html_headers = [(''Content-Type'', ''text/html; charset=UTF-8'')]"

text \<open>\<open>Response.redirect(location, 302)\<close>.\<close>

definition redirect :: "string \<Rightarrow> response" where
  "redirect location = \<lparr>status = 302, headers = [(''Location'', location)], body = NoBody\<rparr>"

definition text_response :: "nat \<Rightarrow> string \<Rightarrow> response" where
  "text_response code msg = \<lparr>status = code, headers = text_headers, body = Text msg\<rparr>"

definition json_response :: "nat \<Rightarrow> body \<Rightarrow> response" where
  "json_response code b = \<lparr>status = code, headers = json_headers, body = b\<rparr>"

text \<open>\<open>encodeURIComponent\<close> on the bytes of a string.\<close>

definition hex_digit :: "nat \<Rightarrow> char" where
  "hex_digit n = ''0123456789ABCDEF'' ! (n mod 16)"

definition uri_unreserved :: "char \<Rightarrow> bool" where
  "uri_unreserved c =
    (c \<in> set (''ABCDEFGHIJKLMNOPQRSTUVWXYZabcdefghijklmnopqrstuvwxyz0123456789-_.!~*()''
               @ [CHR 0x27]))"

definition encodeURIComponent :: "string \<Rightarrow> string" where
  "encodeURIComponent s =
    concat (map (\<lambda>c. if uri_unreserved c then [c]
                      else [CHR ''%'', hex_digit (of_char c div 16), hex_digit (of_char c)]) s)"

definition of_option :: "string option \<Rightarrow> js_val" where
  "of_option v = (case v of None \<Rightarrow> Undefined | Some s \<Rightarrow> Str s)"

section \<open>Upload Flow\<close>

text \<open>
  \<open>result?.document?.file_id || result?.video?.file_id || result?.audio?.file_id ||
  (result?.photo && result.photo[result.photo.length-1]?.file_id)\<close>: an array is
  truthy even when empty, and its element at \<open>length - 1\<close> is then \<open>undefined\<close>.
\<close>

definition photo_file_id :: "string option list option \<Rightarrow> js_val" where
  "photo_file_id photo =
    (case photo of
       None \<Rightarrow> Undefined
     | Some sizes \<Rightarrow> (if sizes = [] then Undefined else of_option (last sizes)))"

definition extract_file_id :: "tg_result option \<Rightarrow> js_val" where
  "extract_file_id result =
    (case result of
       None \<Rightarrow> Undefined
     | Some r \<Rightarrow>
        js_or (of_option (document_file_id r))
          (js_or (of_option (video_file_id r))
            (js_or (of_option (audio_file_id r)) (photo_file_id (photo_file_ids r)))))"

text \<open>\<open>result?.message_id\<close>. In \<open>!messageId\<close> the number \<open>0\<close> is falsy like
  \<open>undefined\<close>.\<close>

definition extract_message_id :: "tg_result option \<Rightarrow> int option" where
  "extract_message_id result =
    (case result of None \<Rightarrow> None | Some r \<Rightarrow> result_message_id r)"

text \<open>Executing a statement that writes or reads: the service may fail before the table
  is touched.\<close>

definition run_insert :: "env \<Rightarrow> file_row \<Rightarrow> file_row list \<Rightarrow> js_error + file_row list" where
  "run_insert ev r rows =
    (case db_write_fault ev of Some e \<Rightarrow> Inl e | None \<Rightarrow> db_insert r rows)"

text \<open>The \<open>try\<close> block of \<open>handleUploadRequest\<close>: the response or the exception thrown,
  the store after it, and the calls made.\<close>

definition upload_try ::
  "env \<Rightarrow> request \<Rightarrow> config \<Rightarrow> store \<Rightarrow> (js_error + response) \<times> store \<times> call list" where
  "upload_try ev request conf st =
    (case req_formData request of
       Inl e \<Rightarrow> (Inl e, st, [])
     | Inr NoEntry \<Rightarrow> (Inl (Exn False msg_no_file), st, [])
     | Inr (TextEntry s) \<Rightarrow>
        if s = [] then (Inl (Exn False msg_no_file), st, [])
        else (Inl (Exn True (''Cannot read properties of undefined (reading ''
                              @ quoted ''split'' @ '')'')), st, [])
     | Inr (FileEntry file) \<Rightarrow>
        (let ext = file_ext (file_name_of file);
             mimeType = getContentType ext in
         case mainType_of mimeType of
           Inl e \<Rightarrow> (Inl e, st, [])
         | Inr mainType \<Rightarrow>
            (let (method, field) = upload_method mainType;
                 sent = [TgSend method field (file_name_of file)] in
             case tg_send ev of
               Inl e \<Rightarrow> (Inl e, st, sent)
             | Inr tgResponse \<Rightarrow>
                if \<not> send_ok tgResponse then (Inl (Exn False msg_tg_config), st, sent)
                else
                  (case send_json tgResponse of
                     Inl e \<Rightarrow> (Inl e, st, sent)
                   | Inr ReplyNull \<Rightarrow>
                      (Inl (Exn True (''Cannot read properties of null (reading ''
                                       @ quoted ''result'' @ '')'')), st, sent)
                   | Inr (Reply result) \<Rightarrow>
                      (let messageId = extract_message_id result;
                           fileId = extract_file_id result in
                       if \<not> truthy fileId then (Inl (Exn False msg_no_file_id), st, sent)
                       else
                         (case messageId of
                            None \<Rightarrow> (Inl (Exn False msg_no_message_id), st, sent)
                          | Some mid \<Rightarrow>
                             if mid = 0 then (Inl (Exn False msg_no_message_id), st, sent)
                             else
                               (let u = origin conf @ ''/'' @ show_int (time ev) @ ''.'' @ ext;
                                    row = \<lparr>url = u,
                                           fileId = to_display fileId,
                                           message_id = mid,
                                           created_at = timestamp ev,
                                           file_name = Some (file_name_of file),
                                           file_size = Some (file_size_of file),
                                           mime_type =
                                             Some (to_display
                                               (js_or (Str (file_type_of file))
                                                  (getContentType ext)))\<rparr>
                                in case run_insert ev row (files st) of
                                     Inl e \<Rightarrow> (Inl e, st, sent @ [DbInsert row])
                                   | Inr rows \<Rightarrow>
                                      (Inr (json_response 200 (UploadOk u)),
                                       st\<lparr>files := rows\<rparr>,
                                       sent @ [DbInsert row]))))))))"

text \<open>The \<open>catch\<close> block: the status is chosen by the text and the class of the error.\<close>

definition upload_status :: "js_error \<Rightarrow> nat" where
  "upload_status error =
    (if js_includes (message error) msg_tg_config then 502
     else if is_TypeError error \<and> js_includes (message error) ''Failed to fetch'' then 504
     else 500)"

definition upload_failure :: "js_error \<Rightarrow> response" where
  "upload_failure error = json_response (upload_status error) (UploadFailed (message error))"

text \<open>A handler returns \<open>Inr\<close> of its response, the store after the request and the calls
  it made, or \<open>Inl\<close> of an exception it did not catch.\<close>

type_synonym outcome = "js_error + (response \<times> store \<times> call list)"

definition handleUploadRequest ::
  "runtime \<Rightarrow> env \<Rightarrow> request \<Rightarrow> config \<Rightarrow> store \<Rightarrow> outcome" where
  "handleUploadRequest rt ev request conf st =
    (case auth_blocked rt (now ev) request conf of
       Inl e \<Rightarrow> Inl e
     | Inr True \<Rightarrow> Inr (redirect (req_origin request @ ''/''), st, [])
     | Inr False \<Rightarrow>
        if req_method request = ''GET''
        then Inr (\<lparr>status = 200, headers = html_headers, body = Page ''upload''\<rparr>, st, [])
        else (case upload_try ev request conf st of
                (Inr r, st', cs) \<Rightarrow> Inr (r, st', cs)
              | (Inl error, st', cs) \<Rightarrow> Inr (upload_failure error, st', cs)))"

section \<open>Search Flow\<close>

definition search_try ::
  "env \<Rightarrow> request \<Rightarrow> store \<Rightarrow> (js_error + response) \<times> call list" where
  "search_try ev request st =
    (case req_json request of
       Inl e \<Rightarrow> (Inl e, [])
     | Inr b \<Rightarrow>
        (case json_destructure b ''query'' of
           Inl e \<Rightarrow> (Inl e, [])
         | Inr query \<Rightarrow>
            (let searchPattern = ''%'' @ template query @ ''%'' in
             case db_read_fault ev of
               Some e \<Rightarrow> (Inl e, [DbSearch searchPattern])
             | None \<Rightarrow>
                (case db_search searchPattern (files st) of
                   Inl e \<Rightarrow> (Inl e, [DbSearch searchPattern])
                 | Inr rows \<Rightarrow>
                    (Inr (json_response 200 (FilesJson rows)), [DbSearch searchPattern])))))"

definition handleSearchRequest ::
  "runtime \<Rightarrow> env \<Rightarrow> request \<Rightarrow> config \<Rightarrow> store \<Rightarrow> outcome" where
  "handleSearchRequest rt ev request conf st =
    (case auth_blocked rt (now ev) request conf of
       Inl e \<Rightarrow> Inl e
     | Inr True \<Rightarrow> Inr (redirect (req_origin request @ ''/''), st, [])
     | Inr False \<Rightarrow>
        (case search_try ev request st of
           (Inr r, cs) \<Rightarrow> Inr (r, st, cs)
         | (Inl error, cs) \<Rightarrow>
            Inr (json_response 500 (ErrorJson (message error)), st, cs)))"

section \<open>Retrieve Flow\<close>

text \<open>The response built from the downloaded bytes; \<open>new Response\<close> throws when it
  does not accept a header value.\<close>

definition file_headers :: "string \<Rightarrow> file_row \<Rightarrow> js_error + (string \<times> string) list" where
  "file_headers u file =
    (case pop (split_on CHR ''.'' u) of
       Str e \<Rightarrow>
        (let contentType = js_or (of_option (mime_type file)) (getContentType (toLowerCase e)) in
         Inr [(''Content-Type'', to_display contentType),
              (''Cache-Control'', ''public, max-age=31536000''),
              (''X-Content-Type-Options'', ''nosniff''),
              (''Access-Control-Allow-Origin'', ''*''),
              (''Content-Disposition'',
                 ''inline; filename*=UTF-8'' @ [CHR 0x27, CHR 0x27]
                   @ encodeURIComponent
                       (to_display (js_or (of_option (file_name file)) (Str []))))])
     | _ \<Rightarrow> Inl (Exn True (''Cannot read properties of undefined (reading ''
                            @ quoted ''toLowerCase'' @ '')'')))"

definition file_response ::
  "env \<Rightarrow> string \<Rightarrow> file_row \<Rightarrow> string \<Rightarrow> js_error + response" where
  "file_response ev u file bytes =
    (case file_headers u file of
       Inl e \<Rightarrow> Inl e
     | Inr hs \<Rightarrow>
        (case response_refused ev hs of
           Some e \<Rightarrow> Inl e
         | None \<Rightarrow> Inr \<lparr>status = 200, headers = hs, body = Bytes bytes\<rparr>))"

text \<open>The \<open>try\<close> block of \<open>handleFileRequest\<close>.\<close>

definition file_try ::
  "env \<Rightarrow> request \<Rightarrow> config \<Rightarrow> store \<Rightarrow> (js_error + response) \<times> store \<times> call list" where
  "file_try ev request conf st =
    (let u = req_url request in
     case cache_match_fault ev of
       Some e \<Rightarrow> (Inl e, st, [CacheMatch u])
     | None \<Rightarrow>
        (case map_of (edge_cache st) u of
           Some cached \<Rightarrow> (Inr cached, st, [CacheMatch u])
         | None \<Rightarrow>
            (case db_read_fault ev of
               Some e \<Rightarrow> (Inl e, st, [CacheMatch u, DbSelectByUrl u])
             | None \<Rightarrow>
                (case db_first_by_url u (files st) of
                   None \<Rightarrow>
                    (Inr (text_response 404 msg_file_missing), st,
                     [CacheMatch u, DbSelectByUrl u])
                 | Some file \<Rightarrow>
                    (let cs1 = [CacheMatch u, DbSelectByUrl u, TgGetFile (fileId file)] in
                     case tg_getFile ev of
                       Inl e \<Rightarrow> (Inl e, st, cs1)
                     | Inr tgResp \<Rightarrow>
                        if \<not> getFile_ok tgResp
                        then (Inr (text_response 500 msg_get_file_failed), st, cs1)
                        else
                          (case getFile_json tgResp of
                             Inl e \<Rightarrow> (Inl e, st, cs1)
                           | Inr ReplyNull \<Rightarrow>
                              (Inl (Exn True (''Cannot read properties of null (reading ''
                                               @ quoted ''result'' @ '')'')), st, cs1)
                           | Inr (Reply result) \<Rightarrow>
                              (let filePath =
                                     (case result of None \<Rightarrow> Undefined | Some p \<Rightarrow> of_option p)
                               in
                               if \<not> truthy filePath
                               then (Inr (text_response 404 msg_bad_path), st, cs1)
                               else
                                 (let cs2 = cs1 @ [TgDownload (to_display filePath)] in
                                  case tg_download ev of
                                    Inl e \<Rightarrow> (Inl e, st, cs2)
                                  | Inr fileResponse \<Rightarrow>
                                     if \<not> download_ok fileResponse
                                     then (Inr (text_response 500 msg_download_failed), st, cs2)
                                     else
                                       (case file_response ev u file (download_body fileResponse) of
                                          Inl e \<Rightarrow> (Inl e, st, cs2)
                                        | Inr r \<Rightarrow>
                                           (case cache_put_fault ev of
                                              Some e \<Rightarrow> (Inl e, st, cs2 @ [CachePut u])
                                            | None \<Rightarrow>
                                               (Inr r,
                                                st\<lparr>edge_cache := (u, r) # edge_cache st\<rparr>,
                                                cs2 @ [CachePut u])))))))))))"

definition handleFileRequest :: "env \<Rightarrow> request \<Rightarrow> config \<Rightarrow> store \<Rightarrow> outcome" where
  "handleFileRequest ev request conf st =
    (case file_try ev request conf st of
       (Inr r, st', cs) \<Rightarrow> Inr (r, st', cs)
     | (Inl error, st', cs) \<Rightarrow> Inr (text_response 500 msg_internal_error, st', cs))"

section \<open>Delete Flow\<close>

text \<open>The inner \<open>try\<close>/\<open>catch\<close>: \<open>deleteError\<close> stays \<open>null\<close> (\<open>None\<close>) or becomes the
  message of whatever was thrown.\<close>

definition delete_message :: "env \<Rightarrow> string option" where
  "delete_message ev =
    (case tg_deleteMessage ev of
       Inl e \<Rightarrow> Some (message e)
     | Inr resp \<Rightarrow>
        if delete_ok resp then None
        else (case delete_json resp of
                Inl e \<Rightarrow> Some (message e)
              | Inr errorData \<Rightarrow>
                 (case json_field errorData ''description'' of
                    Inl e \<Rightarrow> Some (message e)
                  | Inr description \<Rightarrow> Some (msg_tg_delete_failed @ template description))))"

text \<open>\<open>deleteError ? ... : ...\<close>: \<open>null\<close> and the empty string are falsy.\<close>

definition delete_text :: "string option \<Rightarrow> string" where
  "delete_text deleteError =
    (if truthy (of_option deleteError)
     then msg_db_deleted_tg_failed @ to_display (of_option deleteError)
     else msg_delete_ok)"

text \<open>The outer \<open>try\<close> block of \<open>handleDeleteRequest\<close>.\<close>

definition delete_try ::
  "env \<Rightarrow> request \<Rightarrow> config \<Rightarrow> store \<Rightarrow> (js_error + response) \<times> store \<times> call list" where
  "delete_try ev request conf st =
    (case req_json request of
       Inl e \<Rightarrow> (Inl e, st, [])
     | Inr b \<Rightarrow>
        (case json_destructure b ''url'' of
           Inl e \<Rightarrow> (Inl e, st, [])
         | Inr (Some (JStr u)) \<Rightarrow>
            if u = [] then (Inr (json_response 400 (ErrorJson msg_invalid_url)), st, [])
            else
              (case db_read_fault ev of
                 Some e \<Rightarrow> (Inl e, st, [DbSelectByUrl u])
               | None \<Rightarrow>
                  (case db_first_by_url u (files st) of
                     None \<Rightarrow>
                      (Inr (json_response 404 (ErrorJson msg_file_missing)), st,
                       [DbSelectByUrl u])
                   | Some file \<Rightarrow>
                      (let cs = [DbSelectByUrl u,
                                 TgDeleteMessage (tgChatId conf) (message_id file),
                                 DbDeleteByUrl u];
                           deleteError = delete_message ev in
                       case db_write_fault ev of
                         Some e \<Rightarrow> (Inl e, st, cs)
                       | None \<Rightarrow>
                          (Inr (json_response 200 (DeleteOk (delete_text deleteError))),
                           st\<lparr>files := db_delete_by_url u (files st)\<rparr>,
                           cs))))
         | Inr _ \<Rightarrow> (Inr (json_response 400 (ErrorJson msg_invalid_url)), st, [])))"

definition delete_failure :: "js_error \<Rightarrow> response" where
  "delete_failure error =
    json_response 500
      (ErrorJson (if js_includes (message error) ''message to delete not found''
                  then msg_removed_from_channel else message error))"

definition handleDeleteRequest ::
  "runtime \<Rightarrow> env \<Rightarrow> request \<Rightarrow> config \<Rightarrow> store \<Rightarrow> outcome" where
  "handleDeleteRequest rt ev request conf st =
    (case auth_blocked rt (now ev) request conf of
       Inl e \<Rightarrow> Inl e
     | Inr True \<Rightarrow> Inr (redirect (req_origin request @ ''/''), st, [])
     | Inr False \<Rightarrow>
        (case delete_try ev request conf st of
           (Inr r, st', cs) \<Rightarrow> Inr (r, st', cs)
         | (Inl error, st', cs) \<Rightarrow> Inr (delete_failure error, st', cs)))"

section \<open>Vocabulary of the properties\<close>

text \<open>
  What the Telegram call of an upload yields, read off the world's answers: the file id
  and the message id when the call returned, the response was ok, the body parsed and
  both ids are truthy; \<open>None\<close> in every other case.
\<close>

definition store_outcome :: "env \<Rightarrow> (string \<times> int) option" where
  "store_outcome ev =
    (case tg_send ev of
       Inl e \<Rightarrow> None
     | Inr tgResponse \<Rightarrow>
        if \<not> send_ok tgResponse then None
        else
          (case send_json tgResponse of
             Inr (Reply result) \<Rightarrow>
              (case (extract_file_id result, extract_message_id result) of
                 (Str fid, Some mid) \<Rightarrow> if fid \<noteq> [] \<and> mid \<noteq> 0 then Some (fid, mid) else None
               | _ \<Rightarrow> None)
           | _ \<Rightarrow> None))"

text \<open>The rows a handler tried to insert, and the calls that reach the index or
  Telegram.\<close>

fun inserted :: "call list \<Rightarrow> file_row list" where
  "inserted [] = []"
| "inserted (DbInsert r # cs) = r # inserted cs"
| "inserted (c # cs) = inserted cs"

fun is_index_call :: "call \<Rightarrow> bool" where
  "is_index_call (DbInsert r) = True"
| "is_index_call (DbSelectByUrl u) = True"
| "is_index_call (DbDeleteByUrl u) = True"
| "is_index_call (DbSearch p) = True"
| "is_index_call c = False"

fun is_backend_call :: "call \<Rightarrow> bool" where
  "is_backend_call (TgSend m f n) = True"
| "is_backend_call (TgGetFile i) = True"
| "is_backend_call (TgDownload p) = True"
| "is_backend_call (TgDeleteMessage c m) = True"
| "is_backend_call c = False"


text \<open>A text with its ASCII letters in lower case, and the suffixes of a text that start
  at one of its characters (or at its end).\<close>

definition fold_ascii :: "string \<Rightarrow> string" where
  "fold_ascii s = map lower_char s"




text \<open>Every byte of the text is an ASCII character.\<close>

definition ascii :: "string \<Rightarrow> bool" where
  "ascii s = list_all (\<lambda>c. of_char c < (128::nat)) s"

text \<open>The request carries a file whose extension the classifier accepts, so that the
  handler goes on to the Telegram call; and the URL it then gives the file.\<close>

definition reaches_backend :: "request \<Rightarrow> bool" where
  "reaches_backend request =
    (case req_formData request of
       Inr (FileEntry file) \<Rightarrow>
        (case mainType_of (getContentType (file_ext (file_name_of file))) of
           Inr mainType \<Rightarrow> True
         | Inl e \<Rightarrow> False)
     | _ \<Rightarrow> False)"

definition upload_url :: "config \<Rightarrow> env \<Rightarrow> request \<Rightarrow> string" where
  "upload_url conf ev request =
    (case req_formData request of
       Inr (FileEntry file) \<Rightarrow>
        origin conf @ ''/'' @ show_int (time ev) @ ''.'' @ file_ext (file_name_of file)
     | _ \<Rightarrow> [])"

text \<open>The token the cookie header carries, if any.\<close>

definition cookie_token :: "request \<Rightarrow> string option" where
  "cookie_token request =
    match_auth_token (case req_cookie request of None \<Rightarrow> [] | Some c \<Rightarrow> c)"

text \<open>Stages of a retrieval: the cache answered and had nothing; then the index answered
  with a row; then Telegram gave a path for the file.\<close>

definition cache_miss :: "env \<Rightarrow> request \<Rightarrow> store \<Rightarrow> bool" where
  "cache_miss ev request st =
    (cache_match_fault ev = None \<and> map_of (edge_cache st) (req_url request) = None)"

definition record_found :: "env \<Rightarrow> request \<Rightarrow> store \<Rightarrow> file_row \<Rightarrow> bool" where
  "record_found ev request st r =
    (cache_miss ev request st \<and> db_read_fault ev = None
     \<and> db_first_by_url (req_url request) (files st) = Some r)"

definition path_resolved :: "env \<Rightarrow> string \<Rightarrow> bool" where
  "path_resolved ev p =
    (case tg_getFile ev of
       Inl e \<Rightarrow> False
     | Inr tg \<Rightarrow> getFile_ok tg \<and> getFile_json tg = Inr (Reply (Some (Some p))) \<and> p \<noteq> [])"

subsection \<open>Concrete inputs\<close>

definition ex_runtime :: runtime where
  "ex_runtime =
    \<lparr>JSON_parse_atob =
       (\<lambda>s. if s = ''good''
            then Inr (JObj [(''username'', JStr ''admin''), (''expiration'', JNum 2000)])
            else if s = ''null'' then Inr JNull
            else Inl (Exn False ''Unexpected token'')),
     StringToNumber = (\<lambda>s. None)\<rparr>"

definition ex_config :: config where
  "ex_config =
    \<lparr>origin = ''https://host'', username = Some ''admin'', enableAuth = True,
     tgBotToken = ''token'', tgChatId = ''42''\<rparr>"

definition ex_file :: upload_file where
  "ex_file = \<lparr>file_name_of = ''photo.PNG'', file_size_of = 1024, file_type_of = ''image/png''\<rparr>"

definition ex_request :: request where
  "ex_request =
    \<lparr>req_method = ''POST'', req_url = ''https://host/169.png'', req_origin = ''https://host'',
     req_cookie = Some ''theme=dark; auth_token=good; lang=en'',
     req_json = Inr (JObj [(''url'', JStr ''https://host/169.png''), (''query'', JStr ''PHO'')]),
     req_formData = Inr (FileEntry ex_file)\<rparr>"

definition ex_result :: tg_result where
  "ex_result =
    \<lparr>result_message_id = Some 7, document_file_id = None, video_file_id = None,
     audio_file_id = None, photo_file_ids = Some [Some ''small'', Some ''large'']\<rparr>"

definition ex_env :: env where
  "ex_env =
    \<lparr>now = 1000, time = 169, timestamp = ''2023-07-22T12:26:40.000Z'',
     tg_send = Inr \<lparr>send_ok = True, send_json = Inr (Reply (Some ex_result))\<rparr>,
     tg_getFile = Inr \<lparr>getFile_ok = True, getFile_json = Inr (Reply (Some (Some ''photos/f.png'')))\<rparr>,
     tg_download = Inr \<lparr>download_ok = True, download_body = ''bytes''\<rparr>,
     tg_deleteMessage = Inr \<lparr>delete_ok = True, delete_json = Inr (JObj [])\<rparr>,
     db_read_fault = None, db_write_fault = None,
     cache_match_fault = None, cache_put_fault = None,
     response_refused = (\<lambda>hs. None)\<rparr>"

definition ex_row :: file_row where
  "ex_row =
    \<lparr>url = ''https://host/169.png'', fileId = ''large'', message_id = 7,
     created_at = ''2023-07-22T12:26:40.000Z'', file_name = Some ''photo.PNG'',
     file_size = Some 1024, mime_type = Some ''image/png''\<rparr>"

definition ex_old_row :: file_row where
  "ex_old_row =
    \<lparr>url = ''https://host/100.pdf'', fileId = ''doc'', message_id = 3,
     created_at = ''2023-01-01T08:00:00.000Z'', file_name = Some ''report.pdf'',
     file_size = Some 10, mime_type = Some ''application/pdf''\<rparr>"

definition ex_store :: store where
  "ex_store = \<lparr>files = [ex_old_row], edge_cache = []\<rparr>"

definition ex_env_refused :: env where
  "ex_env_refused =
    ex_env\<lparr>tg_send := Inr \<lparr>send_ok = False, send_json = Inl (Exn False ''no body'')\<rparr>\<rparr>"

definition ex_env_lost :: env where
  "ex_env_lost = ex_env\<lparr>tg_send := Inl (Exn False ''Network connection lost.'')\<rparr>"

definition ex_env_unreachable :: env where
  "ex_env_unreachable = ex_env\<lparr>tg_send := Inl (Exn True ''Failed to fetch'')\<rparr>"

definition ex_request_no_file :: request where
  "ex_request_no_file = ex_request\<lparr>req_formData := Inr NoEntry\<rparr>"

definition ex_request_constructor :: request where
  "ex_request_constructor =
    ex_request\<lparr>req_formData := Inr (FileEntry (ex_file\<lparr>file_name_of := ''notes.constructor''\<rparr>))\<rparr>"

definition ex_request_no_cookie :: request where
  "ex_request_no_cookie = ex_request\<lparr>req_cookie := None\<rparr>"

definition ex_request_bad_token :: request where
  "ex_request_bad_token = ex_request\<lparr>req_cookie := Some ''auth_token=garbage''\<rparr>"

definition ex_env_gone :: env where
  "ex_env_gone =
    ex_env\<lparr>tg_deleteMessage :=
      Inr \<lparr>delete_ok = False,
           delete_json = Inr (JObj [(''ok'', JBool False),
             (''description'', JStr ''Bad Request: message to delete not found'')])\<rparr>\<rparr>"

definition ex_env_silent :: env where
  "ex_env_silent = ex_env\<lparr>tg_deleteMessage := Inl (Exn False [])\<rparr>"

definition ex_store_full :: store where
  "ex_store_full = \<lparr>files = [ex_old_row, ex_row], edge_cache = []\<rparr>"

definition ex_cached :: response where
  "ex_cached =
    \<lparr>status = 200, headers = [(''Content-Type'', ''image/png'')], body = Bytes ''old bytes''\<rparr>"

definition ex_store_cached :: store where
  "ex_store_cached = \<lparr>files = [ex_old_row], edge_cache = [(''https://host/169.png'', ex_cached)]\<rparr>"

definition ex_env_no_path :: env where
  "ex_env_no_path =
    ex_env\<lparr>tg_getFile := Inr \<lparr>getFile_ok = True, getFile_json = Inr (Reply (Some None))\<rparr>\<rparr>"

definition ex_env_download_failed :: env where
  "ex_env_download_failed =
    ex_env\<lparr>tg_download := Inr \<lparr>download_ok = False, download_body = []\<rparr>\<rparr>"

definition ex_env_getFile_throws :: env where
  "ex_env_getFile_throws = ex_env\<lparr>tg_getFile := Inl (Exn True ''connect ECONNREFUSED 10.0.0.7'')\<rparr>"








section \<open>Evaluation on concrete inputs\<close>

lemmas ex_defs =
  ex_runtime_def ex_config_def ex_file_def ex_request_def ex_result_def ex_env_def
  ex_row_def ex_old_row_def ex_store_def

lemmas auth_defs =
  auth_blocked_def authenticate_def authenticate_try_def json_field_def
  json_destructure_def js_gt_def
  ToNumber_def strict_eq_def

lemmas upload_defs =
  handleUploadRequest_def upload_try_def file_ext_def pop_def js_or_def
  lower_char_def getContentType_def get_property_def types_def mainType_of_def
  upload_method_def typeMap_def extract_file_id_def extract_message_id_def
  photo_file_id_def of_option_def run_insert_def db_insert_def json_response_def
  json_headers_def show_int_def show_nat.simps Let_def

lemmas msg_defs =
  msg_no_file_def msg_tg_config_def msg_no_file_id_def msg_no_message_id_def

section \<open>Authentication never throws and fails closed\<close>

lemma authenticate_total: "\<exists>b. authenticate rt clock request conf = Inr b"
  by (auto simp: authenticate_def split: option.splits sum.splits)

lemma auth_blocked_total: "\<exists>b. auth_blocked rt clock request conf = Inr b"
  using authenticate_total [of rt clock request conf]
  by (auto simp: auth_blocked_def)

lemma match_auth_token_shape:
  "match_auth_token c = Some t \<Longrightarrow>
    \<exists>pre rest. c = pre @ ''auth_token='' @ t @ rest \<and> t \<noteq> [] \<and> CHR '';'' \<notin> set t
       \<and> (rest = [] \<or> hd rest = CHR '';'')"
proof (induction c)
  case Nil
  then show ?case by simp
next
  case (Cons a c)
  show ?case
  proof (cases "prefix ''auth_token='' (a # c)
        \<and> takeWhile (\<lambda>x. x \<noteq> CHR '';'') (drop 11 (a # c)) \<noteq> []")
    case True
    then obtain rest0 where r0: "a # c = ''auth_token='' @ rest0"
      by (auto simp: prefix_def)
    then have d: "drop 11 (a # c) = rest0" by simp
    from True Cons.prems d have t: "t = takeWhile (\<lambda>x. x \<noteq> CHR '';'') rest0" "t \<noteq> []"
      by auto
    have "rest0 = t @ dropWhile (\<lambda>x. x \<noteq> CHR '';'') rest0"
      by (simp add: t)
    moreover have "dropWhile (\<lambda>x. x \<noteq> CHR '';'') rest0 = []
        \<or> hd (dropWhile (\<lambda>x. x \<noteq> CHR '';'') rest0) = CHR '';''"
      using hd_dropWhile [of "\<lambda>x. x \<noteq> CHR '';''" rest0] by auto
    moreover have "CHR '';'' \<notin> set t"
      using set_takeWhileD [of "CHR '';''" "\<lambda>x. x \<noteq> CHR '';''" rest0] by (auto simp: t)
    ultimately show ?thesis
      using r0 t(2) by (metis append_Nil)
  next
    case False
    with Cons.prems have "match_auth_token c = Some t" by (auto split: if_splits)
    from Cons.IH [OF this] obtain pre rest where
      "c = pre @ ''auth_token='' @ t @ rest" "t \<noteq> []" "CHR '';'' \<notin> set t"
      "rest = [] \<or> hd rest = CHR '';''" by blast
    then have "a # c = (a # pre) @ ''auth_token='' @ t @ rest" by simp
    then show ?thesis
      using \<open>t \<noteq> []\<close> \<open>CHR '';'' \<notin> set t\<close> \<open>rest = [] \<or> hd rest = CHR '';''\<close> by blast
  qed
qed

lemma no_auth_token_cookie:
  "\<not> sublist ''auth_token='' c \<Longrightarrow> match_auth_token c = None"
proof (rule ccontr)
  assume n: "\<not> sublist ''auth_token='' c" and "match_auth_token c \<noteq> None"
  then obtain t where "match_auth_token c = Some t" by auto
  from match_auth_token_shape [OF this] obtain pre rest where
    "c = pre @ ''auth_token='' @ t @ rest" by blast
  then have "sublist ''auth_token='' c"
    unfolding sublist_def by (metis append.assoc)
  with n show False by simp
qed


lemma js_gt_number: "js_gt rt clock (Some (JNum n)) = (n < clock)"
  by (simp add: js_gt_def ToNumber_def)

lemma authenticate_true_iff:
  "(authenticate rt clock request conf = Inr True) =
     (\<exists>token tokenData expiration name.
        cookie_token request = Some token
        \<and> JSON_parse_atob rt token = Inr tokenData
        \<and> json_field tokenData ''expiration'' = Inr expiration
        \<and> \<not> js_gt rt clock expiration
        \<and> json_field tokenData ''username'' = Inr name
        \<and> strict_eq name (username conf))"
  unfolding authenticate_def authenticate_try_def cookie_token_def Let_def
  by (auto split: option.splits sum.splits if_splits)

text \<open>
  C10. \<open>authenticate\<close> returns a boolean on every request and never throws. It returns
  \<open>true\<close> exactly when the cookie header carries a token, the token decodes, the clock is
  not past its \<open>expiration\<close> (as \<open>now > tokenData.expiration\<close> decides) and its
  \<open>username\<close> is strictly equal to the configured one. So it returns \<open>false\<close> without
  a cookie header, without an \<open>auth_token\<close> in it, for a token that does not decode or
  decodes to \<open>null\<close>, for an expiration earlier than the clock, and for another user's
  name.
\<close>

theorem authenticate_fail_closed:
  "(\<exists>b. authenticate rt clock request conf = Inr b)
   \<and> (authenticate rt clock request conf = Inr True) =
       (\<exists>token tokenData expiration name.
          cookie_token request = Some token
          \<and> JSON_parse_atob rt token = Inr tokenData
          \<and> json_field tokenData ''expiration'' = Inr expiration
          \<and> \<not> js_gt rt clock expiration
          \<and> json_field tokenData ''username'' = Inr name
          \<and> strict_eq name (username conf))
   \<and> (req_cookie request = None \<longrightarrow> authenticate rt clock request conf = Inr False)
   \<and> (\<forall>c. req_cookie request = Some c \<and> \<not> sublist ''auth_token='' c
         \<longrightarrow> authenticate rt clock request conf = Inr False)
   \<and> (\<forall>token e. cookie_token request = Some token \<and> JSON_parse_atob rt token = Inl e
         \<longrightarrow> authenticate rt clock request conf = Inr False)
   \<and> (\<forall>token. cookie_token request = Some token \<and> JSON_parse_atob rt token = Inr JNull
         \<longrightarrow> authenticate rt clock request conf = Inr False)
   \<and> (\<forall>token kvs n. cookie_token request = Some token
           \<and> JSON_parse_atob rt token = Inr (JObj kvs)
           \<and> map_of kvs ''expiration'' = Some (JNum n) \<and> n < clock
         \<longrightarrow> authenticate rt clock request conf = Inr False)
   \<and> (\<forall>token kvs u. cookie_token request = Some token
           \<and> JSON_parse_atob rt token = Inr (JObj kvs)
           \<and> map_of kvs ''username'' = Some (JStr u) \<and> Some u \<noteq> username conf
         \<longrightarrow> authenticate rt clock request conf = Inr False)"
proof -
  obtain b where b: "authenticate rt clock request conf = Inr b"
    using authenticate_total by blast
  have false_if: "authenticate rt clock request conf = Inr False"
    if "authenticate rt clock request conf \<noteq> Inr True"
    using that b by (cases b) simp_all
  note iff = authenticate_true_iff [of rt clock request conf]
  have no_cookie: "authenticate rt clock request conf = Inr False"
    if "req_cookie request = None"
    using that by (simp add: authenticate_def)
  have no_token: "authenticate rt clock request conf = Inr False"
    if "req_cookie request = Some c \<and> \<not> sublist ''auth_token='' c" for c
    using that no_auth_token_cookie [of c] by (simp add: authenticate_def)
  have undecodable: "authenticate rt clock request conf = Inr False"
    if "cookie_token request = Some token \<and> JSON_parse_atob rt token = Inl e" for token e
    by (rule false_if) (use that iff in auto)
  have null_token: "authenticate rt clock request conf = Inr False"
    if "cookie_token request = Some token \<and> JSON_parse_atob rt token = Inr JNull" for token
    by (rule false_if) (use that iff in \<open>auto simp: json_field_def\<close>)
  have expired: "authenticate rt clock request conf = Inr False"
    if "cookie_token request = Some token \<and> JSON_parse_atob rt token = Inr (JObj kvs)
        \<and> map_of kvs ''expiration'' = Some (JNum n) \<and> n < clock" for token kvs n
    by (rule false_if) (use that iff in \<open>auto simp: json_field_def js_gt_number\<close>)
  have other_user: "authenticate rt clock request conf = Inr False"
    if "cookie_token request = Some token \<and> JSON_parse_atob rt token = Inr (JObj kvs)
        \<and> map_of kvs ''username'' = Some (JStr u) \<and> Some u \<noteq> username conf" for token kvs u
    by (rule false_if) (use that iff in \<open>auto simp: json_field_def strict_eq_def split: option.splits\<close>)
  show ?thesis
    apply (intro conjI allI impI)
    subgoal using b by blast
    subgoal by (rule iff)
    subgoal by (rule no_cookie)
    subgoal by (rule no_token)
    subgoal by (rule undecodable)
    subgoal by (rule null_token)
    subgoal by (rule expired)
    subgoal by (rule other_user)
    done
qed

text \<open>A valid token before and after its expiration, no cookie, an undecodable token,
  and a token of another user.\<close>

theorem authenticate_fail_closed_witness:
  "authenticate ex_runtime 1000 ex_request ex_config = Inr True
   \<and> authenticate ex_runtime 3000 ex_request ex_config = Inr False
   \<and> authenticate ex_runtime 1000 ex_request_no_cookie ex_config = Inr False
   \<and> authenticate ex_runtime 1000 ex_request_bad_token ex_config = Inr False
   \<and> authenticate ex_runtime 1000 ex_request (ex_config\<lparr>username := Some ''root''\<rparr>) = Inr False"
proof -
  have tok: "cookie_token ex_request = Some ''good''"
    "cookie_token ex_request_bad_token = Some ''garbage''"
    by (simp_all add: cookie_token_def ex_request_bad_token_def ex_defs)
  have parse: "JSON_parse_atob ex_runtime ''good''
      = Inr (JObj [(''username'', JStr ''admin''), (''expiration'', JNum 2000)])"
    "JSON_parse_atob ex_runtime ''garbage'' = Inl (Exn False ''Unexpected token'')"
    by (simp_all add: ex_defs)
  have "authenticate ex_runtime 1000 ex_request ex_config = Inr True"
    using authenticate_fail_closed [of ex_runtime 1000 ex_request ex_config] tok parse
    by (simp add: json_field_def js_gt_number strict_eq_def ex_config_def)
  moreover have "authenticate ex_runtime 3000 ex_request ex_config = Inr False"
    using authenticate_fail_closed [of ex_runtime 3000 ex_request ex_config] tok parse
    by simp
  moreover have "authenticate ex_runtime 1000 ex_request_no_cookie ex_config = Inr False"
    using authenticate_fail_closed [of ex_runtime 1000 ex_request_no_cookie ex_config]
    by (simp add: ex_request_no_cookie_def)
  moreover have "authenticate ex_runtime 1000 ex_request_bad_token ex_config = Inr False"
    using authenticate_fail_closed [of ex_runtime 1000 ex_request_bad_token ex_config] tok parse
    by simp
  moreover have "authenticate ex_runtime 1000 ex_request (ex_config\<lparr>username := Some ''root''\<rparr>)
      = Inr False"
    using authenticate_fail_closed
      [of ex_runtime 1000 ex_request "ex_config\<lparr>username := Some ''root''\<rparr>"] tok parse
    by simp
  ultimately show ?thesis by simp
qed

section \<open>Extension and classification\<close>

lemma split_on_nonempty: "split_on d s \<noteq> []"
  by (induction s) (auto split: list.splits)

lemma split_on_no_sep: "d \<notin> set s \<Longrightarrow> split_on d s = [s]"
  by (induction s) auto

lemma split_on_append_sep:
  "d \<notin> set suf \<Longrightarrow> split_on d (pre @ d # suf) = split_on d pre @ [suf]"
proof (induction pre)
  case Nil
  then show ?case by (simp add: split_on_no_sep)
next
  case (Cons c pre)
  obtain p ps where "split_on d pre = p # ps"
    using split_on_nonempty [of d pre] by (cases "split_on d pre") auto
  with Cons show ?case by simp
qed

text \<open>On ASCII text \<open>toLowerCase\<close> folds the letters and nothing else.\<close>

lemma toLowerCase_ascii: "ascii s \<Longrightarrow> toLowerCase s = fold_ascii s"
proof (induction s rule: toLowerCase.induct)
  case 1
  then show ?case by (simp add: fold_ascii_def)
next
  case (2 c)
  then show ?case by (simp add: fold_ascii_def)
next
  case (3 c d cs)
  from "3.prems" have "of_char c < (128::nat)" and rest: "ascii (d # cs)"
    by (simp_all add: ascii_def)
  then have "c \<noteq> CHR 0xC3" by auto
  with 3 rest show ?case by (simp add: fold_ascii_def)
qed

text \<open>Where the name has a dot, the extension is the text after the last one, in lower
  case; stated for an ASCII extension.\<close>

lemma file_ext_after_last_dot:
  assumes "CHR ''.'' \<notin> set suf" "ascii suf"
  shows "file_ext (pre @ ''.'' @ suf) = fold_ascii suf"
proof -
  have "file_ext (pre @ ''.'' @ suf) = toLowerCase suf"
    using assms(1) by (simp add: file_ext_def pop_def js_or_def split_on_append_sep)
  with assms(2) show ?thesis by (simp add: toLowerCase_ascii)
qed

text \<open>Where it has none, \<open>split\<close> gives the whole name as its only piece, and \<open>pop\<close>
  takes it; stated for an ASCII name.\<close>

lemma file_ext_no_dot:
  assumes "CHR ''.'' \<notin> set name" "ascii name"
  shows "file_ext name = fold_ascii name"
proof -
  have "file_ext name = toLowerCase name"
    using assms(1) by (simp add: file_ext_def pop_def js_or_def split_on_no_sep)
  with assms(2) show ?thesis by (simp add: toLowerCase_ascii)
qed

text \<open>
  C5. The extension of an uploaded file is the text after the last dot of the original
  name, lower-cased, and the empty string when the name has no dot. The second half
  fails: a name without a dot is its own extension. \<open>README\<close> gets the extension
  \<open>readme\<close>, and a file named \<open>jpg\<close> is classified and sent as a JPEG photo.
\<close>

theorem file_ext_of_dotless_name:
  "file_ext ''README'' = ''readme''
   \<and> file_ext ''jpg'' = ''jpg''
   \<and> classify (file_ext ''jpg'') = Inr (''image/jpeg'', ''sendPhoto'', ''photo'')"
  by (simp add: file_ext_def pop_def js_or_def lower_char_def classify_def
      getContentType_def get_property_def types_def mainType_of_def upload_method_def
      typeMap_def)

section \<open>Content Classifier on every extension\<close>

lemma types_values_truthy: "map_of types ext = Some m \<Longrightarrow> m \<noteq> []"
  by (auto simp: types_def split: if_splits)

lemma getContentType_in_table: "map_of types ext = Some m \<Longrightarrow> getContentType ext = Str m"
  using types_values_truthy [of ext m]
  by (simp add: getContentType_def get_property_def js_or_def)

lemma getContentType_outside_table:
  "map_of types ext = None \<Longrightarrow> map_of Object_prototype ext = None
   \<Longrightarrow> getContentType ext = Str ''application/octet-stream''"
  by (simp add: getContentType_def get_property_def js_or_def)

lemma upload_method_families:
  "upload_method ''image'' = (''sendPhoto'', ''photo'')"
  "upload_method ''video'' = (''sendVideo'', ''video'')"
  "upload_method ''audio'' = (''sendAudio'', ''audio'')"
  "mainType \<notin> {''image'', ''video'', ''audio''}
    \<Longrightarrow> upload_method mainType = (''sendDocument'', ''document'')"
  by (auto simp: upload_method_def typeMap_def)

lemma classify_off_prototype:
  assumes "map_of Object_prototype ext = None"
  shows "\<exists>m. getContentType ext = Str m
          \<and> classify ext = Inr (m, upload_method (hd (split_on CHR ''/'' m)))
          \<and> (map_of types ext = None \<longrightarrow> m = ''application/octet-stream'')"
proof (cases "map_of types ext")
  case None
  with assms show ?thesis
    by (simp add: classify_def getContentType_outside_table mainType_of_def)
next
  case (Some m)
  then show ?thesis
    by (simp add: classify_def getContentType_in_table mainType_of_def)
qed

text \<open>
  C6. The classifier returns a MIME type for every extension, \<open>application/octet-stream\<close>
  outside its table, and never fails. This holds for every extension that is not the name
  of a member of \<open>Object.prototype\<close> (\<open>classify_off_prototype\<close> above), and fails for
  those: \<open>types['constructor']\<close> is the function \<open>Object\<close>, which is truthy, so
  \<open>getContentType\<close> returns it instead of the default, \<open>mimeType.split\<close> throws, and the
  upload of \<open>notes.constructor\<close> ends in the \<open>catch\<close> block with status 500, before any
  call to Telegram.
\<close>

theorem getContentType_of_inherited_name:
  "getContentType ''constructor'' = NativeFunction ''Object''
   \<and> getContentType ''__proto__'' = ObjectPrototype
   \<and> classify ''constructor''
       = Inl (Exn True ''mimeType.split is not a function or its return value is not iterable'')
   \<and> handleUploadRequest ex_runtime ex_env ex_request_constructor ex_config ex_store
     = Inr (json_response 500
              (UploadFailed
                 ''mimeType.split is not a function or its return value is not iterable''),
            ex_store, [])"
  by (simp add: ex_request_constructor_def ex_defs auth_defs upload_defs classify_def
      Object_prototype_def upload_failure_def upload_status_def msg_defs)

section \<open>Upload Flow: the index is written only after the backend stored the file\<close>

lemma extract_file_id_not_native [simp]:
  "extract_file_id result \<noteq> NativeFunction n" "extract_file_id result \<noteq> ObjectPrototype"
  by (auto simp: extract_file_id_def photo_file_id_def of_option_def js_or_def
      split: option.splits)

text \<open>The \<open>try\<close> block changes the store, or returns a response, only along its last
  branch: after both ids were extracted and the row was inserted.\<close>

lemma upload_try_changes:
  assumes "upload_try ev request conf st = (res, st', cs)" "st' \<noteq> st \<or> res = Inr resp"
  shows "\<exists>fid mid row. store_outcome ev = Some (fid, mid) \<and> inserted cs = [row]
            \<and> fileId row = fid \<and> message_id row = mid
            \<and> url row \<notin> set (map url (files st))
            \<and> st' = st\<lparr>files := files st @ [row]\<rparr>
            \<and> res = Inr (json_response 200 (UploadOk (url row)))"
  using assms
  unfolding upload_try_def store_outcome_def run_insert_def db_insert_def Let_def
  by (auto split: sum.splits form_entry.splits if_splits tg_reply.splits option.splits
      prod.splits js_val.splits)

lemma upload_try_no_store:
  assumes "upload_try ev request conf st = (res, st', cs)" "store_outcome ev = None"
  shows "st' = st \<and> inserted cs = [] \<and> (\<exists>e. res = Inl e)"
  using assms
  unfolding upload_try_def store_outcome_def run_insert_def db_insert_def Let_def
  by (auto split: sum.splits form_entry.splits if_splits tg_reply.splits option.splits
      prod.splits js_val.splits)

lemma upload_guard:
  assumes "handleUploadRequest rt ev request conf st = Inr (r, st', cs)"
  shows "(st' = st \<and> cs = []) \<or> (\<exists>res. upload_try ev request conf st = (res, st', cs))"
  using assms unfolding handleUploadRequest_def
  by (auto split: sum.splits bool.splits if_splits prod.splits)

text \<open>Every upload request is answered: the handler lets no exception escape.\<close>

lemma handleUploadRequest_total:
  "\<exists>out. handleUploadRequest rt ev request conf st = Inr out"
  using auth_blocked_total [of rt "now ev" request conf]
  by (auto simp: handleUploadRequest_def split: prod.splits sum.splits bool.splits)

text \<open>The three ways the store step fails.\<close>

lemma store_outcome_not_ok:
  "tg_send ev = Inr tg \<Longrightarrow> \<not> send_ok tg \<Longrightarrow> store_outcome ev = None"
  by (simp add: store_outcome_def)

lemma store_outcome_no_file_id:
  "tg_send ev = Inr tg \<Longrightarrow> send_json tg = Inr (Reply result)
    \<Longrightarrow> \<not> truthy (extract_file_id result) \<Longrightarrow> store_outcome ev = None"
  by (auto simp: store_outcome_def split: js_val.splits option.splits)

lemma store_outcome_no_message_id:
  "tg_send ev = Inr tg \<Longrightarrow> send_json tg = Inr (Reply result)
    \<Longrightarrow> extract_message_id result = None \<or> extract_message_id result = Some 0
    \<Longrightarrow> store_outcome ev = None"
  by (auto simp: store_outcome_def split: js_val.splits option.splits)

text \<open>
  C1. Whatever an upload request is answered: if the store step failed (no usable pair of
  file id and message id: in particular a response that is not ok, a missing file id or
  a missing message id), the store is the one before the request and no insert was
  attempted; and if the store changed, the store step had yielded a file id and a message
  id, and the change is exactly one new row carrying them, under a URL that was free.
\<close>

theorem upload_atomicity:
  assumes run: "handleUploadRequest rt ev request conf st = Inr (r, st', cs)"
  shows "(store_outcome ev = None \<longrightarrow> st' = st \<and> inserted cs = [])
       \<and> (\<forall>tg. tg_send ev = Inr tg \<and> \<not> send_ok tg \<longrightarrow> st' = st \<and> inserted cs = [])
       \<and> (\<forall>tg result. tg_send ev = Inr tg \<and> send_json tg = Inr (Reply result)
             \<and> \<not> truthy (extract_file_id result) \<longrightarrow> st' = st \<and> inserted cs = [])
       \<and> (\<forall>tg result. tg_send ev = Inr tg \<and> send_json tg = Inr (Reply result)
             \<and> (extract_message_id result = None \<or> extract_message_id result = Some 0)
             \<longrightarrow> st' = st \<and> inserted cs = [])
       \<and> (st' \<noteq> st \<longrightarrow>
            (\<exists>fid mid row. store_outcome ev = Some (fid, mid)
               \<and> fileId row = fid \<and> message_id row = mid
               \<and> url row \<notin> set (map url (files st))
               \<and> inserted cs = [row]
               \<and> st' = st\<lparr>files := files st @ [row]\<rparr>))"
proof -
  have none: "st' = st \<and> inserted cs = []" if "store_outcome ev = None"
  proof -
    from upload_guard [OF run] show ?thesis
    proof
      assume "st' = st \<and> cs = []"
      then show ?thesis by simp
    next
      assume "\<exists>res. upload_try ev request conf st = (res, st', cs)"
      then obtain res where "upload_try ev request conf st = (res, st', cs)" ..
      from upload_try_no_store [OF this that] show ?thesis by simp
    qed
  qed
  have changed: "\<exists>fid mid row. store_outcome ev = Some (fid, mid)
               \<and> fileId row = fid \<and> message_id row = mid
               \<and> url row \<notin> set (map url (files st))
               \<and> inserted cs = [row]
               \<and> st' = st\<lparr>files := files st @ [row]\<rparr>" if ne: "st' \<noteq> st"
  proof -
    from upload_guard [OF run] ne
    obtain res where "upload_try ev request conf st = (res, st', cs)" by auto
    from upload_try_changes [OF this, of undefined] ne show ?thesis by blast
  qed
  have refused: "st' = st \<and> inserted cs = []"
    if "tg_send ev = Inr tg \<and> \<not> send_ok tg" for tg
    using that none store_outcome_not_ok [of ev tg] by simp
  have no_id: "st' = st \<and> inserted cs = []"
    if "tg_send ev = Inr tg \<and> send_json tg = Inr (Reply result)
        \<and> \<not> truthy (extract_file_id result)" for tg result
    using that none store_outcome_no_file_id [of ev tg result] by simp
  have no_ref: "st' = st \<and> inserted cs = []"
    if "tg_send ev = Inr tg \<and> send_json tg = Inr (Reply result)
        \<and> (extract_message_id result = None \<or> extract_message_id result = Some 0)"
    for tg result
    using that none store_outcome_no_message_id [of ev tg result] by simp
  show ?thesis
  proof (intro conjI allI impI)
    show "st' = st" "inserted cs = []" if "store_outcome ev = None"
      using none [OF that] by simp_all
  qed (use refused no_id no_ref changed in blast)+
qed

text \<open>Two runs: Telegram refuses the upload and the store stays as it was; Telegram
  accepts it and the row is appended.\<close>

theorem upload_atomicity_witness:
  "store_outcome ex_env_refused = None
   \<and> handleUploadRequest ex_runtime ex_env_refused ex_request ex_config ex_store
       = Inr (json_response 502 (UploadFailed msg_tg_config), ex_store,
              [TgSend ''sendPhoto'' ''photo'' ''photo.PNG''])
   \<and> inserted [TgSend ''sendPhoto'' ''photo'' ''photo.PNG''] = []
   \<and> store_outcome ex_env = Some (''large'', 7)
   \<and> handleUploadRequest ex_runtime ex_env ex_request ex_config ex_store
       = Inr (json_response 200 (UploadOk ''https://host/169.png''),
              ex_store\<lparr>files := files ex_store @ [ex_row]\<rparr>,
              [TgSend ''sendPhoto'' ''photo'' ''photo.PNG'', DbInsert ex_row])"
proof -
  have refused: "handleUploadRequest ex_runtime ex_env_refused ex_request ex_config ex_store
       = Inr (json_response 502 (UploadFailed msg_tg_config), ex_store,
              [TgSend ''sendPhoto'' ''photo'' ''photo.PNG''])"
    by (simp add: ex_env_refused_def ex_defs auth_defs upload_defs upload_failure_def
        upload_status_def msg_defs)
  have stored: "handleUploadRequest ex_runtime ex_env ex_request ex_config ex_store
       = Inr (json_response 200 (UploadOk ''https://host/169.png''),
              ex_store\<lparr>files := files ex_store @ [ex_row]\<rparr>,
              [TgSend ''sendPhoto'' ''photo'' ''photo.PNG'', DbInsert ex_row])"
    by (simp add: ex_defs auth_defs upload_defs)
  have out: "store_outcome ex_env_refused = None" "store_outcome ex_env = Some (''large'', 7)"
    by (simp_all add: store_outcome_def ex_env_refused_def ex_defs extract_file_id_def
        extract_message_id_def photo_file_id_def of_option_def js_or_def)
  from upload_atomicity [OF refused] upload_atomicity [OF stored] refused stored out
  show ?thesis by simp
qed

section \<open>Upload Flow: the status of a failed upload\<close>

lemma status_no_file: "upload_status (Exn c msg_no_file) = 500"
  by (simp add: upload_status_def msg_defs)
lemma status_tg_config: "upload_status (Exn c msg_tg_config) = 502"
  by (simp add: upload_status_def msg_defs)
lemma status_no_file_id: "upload_status (Exn False msg_no_file_id) = 500"
  by (simp add: upload_status_def msg_defs)
lemma status_no_message_id: "upload_status (Exn False msg_no_message_id) = 500"
  by (simp add: upload_status_def msg_defs)
lemma status_unique: "upload_status (Exn False msg_unique) = 500"
  by (simp add: upload_status_def msg_defs msg_unique_def)

lemma upload_status_range: "upload_status e \<in> {500, 502, 504}"
  by (simp add: upload_status_def)

lemma upload_open:
  assumes "auth_blocked rt (now ev) request conf = Inr False" "req_method request \<noteq> ''GET''"
  shows "handleUploadRequest rt ev request conf st =
    (case upload_try ev request conf st of
       (Inr r, st', cs) \<Rightarrow> Inr (r, st', cs)
     | (Inl error, st', cs) \<Rightarrow> Inr (upload_failure error, st', cs))"
  using assms by (simp add: handleUploadRequest_def)

lemma try_no_file:
  "req_formData request = Inr NoEntry \<or> req_formData request = Inr (TextEntry [])
   \<Longrightarrow> upload_try ev request conf st = (Inl (Exn False msg_no_file), st, [])"
  by (auto simp: upload_try_def)

lemma try_refused:
  "reaches_backend request \<Longrightarrow> tg_send ev = Inr tg \<Longrightarrow> \<not> send_ok tg
   \<Longrightarrow> fst (upload_try ev request conf st) = Inl (Exn False msg_tg_config)"
  by (auto simp: upload_try_def reaches_backend_def Let_def split: sum.splits form_entry.splits prod.splits)

lemma try_unreachable:
  "reaches_backend request \<Longrightarrow> tg_send ev = Inl e
   \<Longrightarrow> fst (upload_try ev request conf st) = Inl e"
  by (auto simp: upload_try_def reaches_backend_def Let_def split: sum.splits form_entry.splits prod.splits)

lemma try_no_file_id:
  "reaches_backend request \<Longrightarrow> tg_send ev = Inr tg \<Longrightarrow> send_ok tg
   \<Longrightarrow> send_json tg = Inr (Reply result) \<Longrightarrow> \<not> truthy (extract_file_id result)
   \<Longrightarrow> fst (upload_try ev request conf st) = Inl (Exn False msg_no_file_id)"
  by (auto simp: upload_try_def reaches_backend_def Let_def split: sum.splits form_entry.splits prod.splits)

lemma try_no_message_id:
  "reaches_backend request \<Longrightarrow> tg_send ev = Inr tg \<Longrightarrow> send_ok tg
   \<Longrightarrow> send_json tg = Inr (Reply result) \<Longrightarrow> truthy (extract_file_id result)
   \<Longrightarrow> extract_message_id result = None \<or> extract_message_id result = Some 0
   \<Longrightarrow> fst (upload_try ev request conf st) = Inl (Exn False msg_no_message_id)"
  by (auto simp: upload_try_def reaches_backend_def Let_def split: sum.splits form_entry.splits prod.splits)

lemma try_duplicate:
  "reaches_backend request \<Longrightarrow> store_outcome ev = Some (fid, mid) \<Longrightarrow> db_write_fault ev = None
   \<Longrightarrow> upload_url conf ev request \<in> set (map url (files st))
   \<Longrightarrow> fst (upload_try ev request conf st) = Inl (Exn False msg_unique)"
  unfolding upload_try_def reaches_backend_def store_outcome_def upload_url_def run_insert_def db_insert_def Let_def
  by (auto split: sum.splits form_entry.splits prod.splits if_splits tg_reply.splits js_val.splits option.splits)

lemma try_db_fault:
  "reaches_backend request \<Longrightarrow> store_outcome ev = Some (fid, mid) \<Longrightarrow> db_write_fault ev = Some e
   \<Longrightarrow> fst (upload_try ev request conf st) = Inl e"
  unfolding upload_try_def reaches_backend_def store_outcome_def upload_url_def run_insert_def db_insert_def Let_def
  by (auto split: sum.splits form_entry.splits prod.splits if_splits tg_reply.splits js_val.splits option.splits)

lemma upload_thrown:
  assumes "auth_blocked rt (now ev) request conf = Inr False" "req_method request \<noteq> ''GET''"
    and "handleUploadRequest rt ev request conf st = Inr (resp, st', cs)"
    and "fst (upload_try ev request conf st) = Inl error"
  shows "resp = json_response (upload_status error) (UploadFailed (message error))"
  using assms(3,4) unfolding upload_open [OF assms(1,2)]
  by (auto simp: upload_failure_def split: prod.splits sum.splits)

lemma upload_answer:
  assumes "auth_blocked rt (now ev) request conf = Inr False" "req_method request \<noteq> ''GET''"
    and "handleUploadRequest rt ev request conf st = Inr (resp, st', cs)"
  shows "(\<exists>u. resp = json_response 200 (UploadOk u))
       \<or> (\<exists>error. fst (upload_try ev request conf st) = Inl error
            \<and> resp = json_response (upload_status error) (UploadFailed (message error)))"
proof (cases "upload_try ev request conf st")
  case (fields res st1 cs1)
  show ?thesis
  proof (cases res)
    case (Inl error)
    with fields assms show ?thesis
      by (auto simp: handleUploadRequest_def upload_failure_def)
  next
    case (Inr r)
    from upload_try_changes [of ev request conf st res st1 cs1 r] fields Inr
    obtain u where "res = Inr (json_response 200 (UploadOk u))" by blast
    with fields assms show ?thesis
      by (auto simp: handleUploadRequest_def)
  qed
qed


text \<open>
  C9, as amended. An upload that passed the authentication check and is not a \<open>GET\<close> is
  answered either with the success body, or with \<open>{status: 0, msg, error}\<close> carrying the
  message of the error thrown, and the status the \<open>catch\<close> block reads off that error: 502
  exactly when the message holds the text thrown for a Telegram response that is not ok,
  else 504 exactly when it is a \<open>TypeError\<close> whose message holds \<open>Failed to fetch\<close>,
  else 500. By kind: no file 500, Telegram response not ok 502, \<open>fetch\<close> failing with that
  \<open>TypeError\<close> 504, \<open>fetch\<close> failing with any other error 500, no file id 500, no message
  id 500, insert refused for a URL already present 500.
\<close>

theorem upload_failure_status:
  assumes auth: "auth_blocked rt (now ev) request conf = Inr False"
    and post: "req_method request \<noteq> ''GET''"
    and run: "handleUploadRequest rt ev request conf st = Inr (resp, st', cs)"
  shows "((\<exists>u. resp = json_response 200 (UploadOk u))
          \<or> (\<exists>error. fst (upload_try ev request conf st) = Inl error
                \<and> resp = json_response (upload_status error) (UploadFailed (message error))
                \<and> (upload_status error = 502 \<or> upload_status error = 504
                     \<or> upload_status error = 500)
                \<and> (upload_status error = 502) = js_includes (message error) msg_tg_config
                \<and> (upload_status error = 504) =
                    (\<not> js_includes (message error) msg_tg_config \<and> is_TypeError error
                     \<and> js_includes (message error) ''Failed to fetch'')))
       \<and> (req_formData request = Inr NoEntry \<or> req_formData request = Inr (TextEntry [])
            \<longrightarrow> resp = json_response 500 (UploadFailed msg_no_file))
       \<and> (\<forall>tg. reaches_backend request \<and> tg_send ev = Inr tg \<and> \<not> send_ok tg
            \<longrightarrow> resp = json_response 502 (UploadFailed msg_tg_config))
       \<and> (\<forall>e. reaches_backend request \<and> tg_send ev = Inl e \<and> is_TypeError e
              \<and> js_includes (message e) ''Failed to fetch''
              \<and> \<not> js_includes (message e) msg_tg_config
            \<longrightarrow> resp = json_response 504 (UploadFailed (message e)))
       \<and> (\<forall>e. reaches_backend request \<and> tg_send ev = Inl e
              \<and> \<not> (is_TypeError e \<and> js_includes (message e) ''Failed to fetch'')
              \<and> \<not> js_includes (message e) msg_tg_config
            \<longrightarrow> resp = json_response 500 (UploadFailed (message e)))
       \<and> (\<forall>tg result. reaches_backend request \<and> tg_send ev = Inr tg \<and> send_ok tg
              \<and> send_json tg = Inr (Reply result) \<and> \<not> truthy (extract_file_id result)
            \<longrightarrow> resp = json_response 500 (UploadFailed msg_no_file_id))
       \<and> (\<forall>tg result. reaches_backend request \<and> tg_send ev = Inr tg \<and> send_ok tg
              \<and> send_json tg = Inr (Reply result) \<and> truthy (extract_file_id result)
              \<and> (extract_message_id result = None \<or> extract_message_id result = Some 0)
            \<longrightarrow> resp = json_response 500 (UploadFailed msg_no_message_id))
       \<and> (\<forall>fid mid. reaches_backend request \<and> store_outcome ev = Some (fid, mid)
              \<and> db_write_fault ev = None
              \<and> upload_url conf ev request \<in> set (map url (files st))
            \<longrightarrow> resp = json_response 500 (UploadFailed msg_unique))"
proof -
  note thrown = upload_thrown [OF auth post run]
  have general: "(\<exists>u. resp = json_response 200 (UploadOk u))
          \<or> (\<exists>error. fst (upload_try ev request conf st) = Inl error
                \<and> resp = json_response (upload_status error) (UploadFailed (message error))
                \<and> (upload_status error = 502 \<or> upload_status error = 504
                     \<or> upload_status error = 500)
                \<and> (upload_status error = 502) = js_includes (message error) msg_tg_config
                \<and> (upload_status error = 504) =
                    (\<not> js_includes (message error) msg_tg_config \<and> is_TypeError error
                     \<and> js_includes (message error) ''Failed to fetch''))"
    using upload_answer [OF auth post run] by (auto simp: upload_status_def)
  have no_file: "resp = json_response 500 (UploadFailed msg_no_file)"
    if "req_formData request = Inr NoEntry \<or> req_formData request = Inr (TextEntry [])"
    using thrown [of "Exn False msg_no_file"] try_no_file [OF that, of ev conf st]
    by (simp add: status_no_file)
  have refused: "resp = json_response 502 (UploadFailed msg_tg_config)"
    if "reaches_backend request \<and> tg_send ev = Inr tg \<and> \<not> send_ok tg" for tg
    using thrown [of "Exn False msg_tg_config"] try_refused [of request ev tg conf st] that
    by (simp add: status_tg_config)
  have unreachable: "resp = json_response 504 (UploadFailed (message e))"
    if "reaches_backend request \<and> tg_send ev = Inl e \<and> is_TypeError e
        \<and> js_includes (message e) ''Failed to fetch''
        \<and> \<not> js_includes (message e) msg_tg_config" for e
    using thrown [of e] try_unreachable [of request ev e conf st] that
    by (simp add: upload_status_def)
  have other_fetch_error: "resp = json_response 500 (UploadFailed (message e))"
    if "reaches_backend request \<and> tg_send ev = Inl e
        \<and> \<not> (is_TypeError e \<and> js_includes (message e) ''Failed to fetch'')
        \<and> \<not> js_includes (message e) msg_tg_config" for e
    using thrown [of e] try_unreachable [of request ev e conf st] that
    by (simp add: upload_status_def)
  have no_id: "resp = json_response 500 (UploadFailed msg_no_file_id)"
    if "reaches_backend request \<and> tg_send ev = Inr tg \<and> send_ok tg
        \<and> send_json tg = Inr (Reply result) \<and> \<not> truthy (extract_file_id result)"
    for tg result
    using thrown [of "Exn False msg_no_file_id"]
      try_no_file_id [of request ev tg result conf st] that
    by (simp add: status_no_file_id)
  have no_ref: "resp = json_response 500 (UploadFailed msg_no_message_id)"
    if "reaches_backend request \<and> tg_send ev = Inr tg \<and> send_ok tg
        \<and> send_json tg = Inr (Reply result) \<and> truthy (extract_file_id result)
        \<and> (extract_message_id result = None \<or> extract_message_id result = Some 0)"
    for tg result
    using thrown [of "Exn False msg_no_message_id"]
      try_no_message_id [of request ev tg result conf st] that
    by (simp add: status_no_message_id)
  have duplicate: "resp = json_response 500 (UploadFailed msg_unique)"
    if "reaches_backend request \<and> store_outcome ev = Some (fid, mid)
        \<and> db_write_fault ev = None
        \<and> upload_url conf ev request \<in> set (map url (files st))" for fid mid
    using thrown [of "Exn False msg_unique"]
      try_duplicate [of request ev fid mid conf st] that
    by (simp add: status_unique)
  show ?thesis
    apply (intro conjI allI impI)
    subgoal by (rule general)
    subgoal by (rule no_file)
    subgoal by (rule refused)
    subgoal by (rule unreachable)
    subgoal by (rule other_fetch_error)
    subgoal by (rule no_id)
    subgoal by (rule no_ref)
    subgoal by (rule duplicate)
    done
qed

text \<open>Three runs: refused by Telegram, Telegram unreachable, no file in the form.\<close>

theorem upload_failure_status_witness:
  "handleUploadRequest ex_runtime ex_env_refused ex_request ex_config ex_store
     = Inr (json_response 502 (UploadFailed msg_tg_config), ex_store,
            [TgSend ''sendPhoto'' ''photo'' ''photo.PNG''])
   \<and> handleUploadRequest ex_runtime ex_env_unreachable ex_request ex_config ex_store
     = Inr (json_response 504 (UploadFailed ''Failed to fetch''), ex_store,
            [TgSend ''sendPhoto'' ''photo'' ''photo.PNG''])
   \<and> handleUploadRequest ex_runtime ex_env ex_request_no_file ex_config ex_store
     = Inr (json_response 500 (UploadFailed msg_no_file), ex_store, [])"
proof -
  have auth: "auth_blocked ex_runtime (now ex_env_refused) ex_request ex_config = Inr False"
    "auth_blocked ex_runtime (now ex_env_unreachable) ex_request ex_config = Inr False"
    "auth_blocked ex_runtime (now ex_env) ex_request_no_file ex_config = Inr False"
    by (simp_all add: ex_env_refused_def ex_env_unreachable_def ex_request_no_file_def
        ex_defs auth_defs)
  have post: "req_method ex_request \<noteq> ''GET''" "req_method ex_request_no_file \<noteq> ''GET''"
    by (simp_all add: ex_request_no_file_def ex_defs)
  have reach: "reaches_backend ex_request"
    by (simp add: reaches_backend_def ex_defs upload_defs)
  obtain r1 c1 where run1:
    "handleUploadRequest ex_runtime ex_env_refused ex_request ex_config ex_store
      = Inr (r1, ex_store, c1)" "c1 = [TgSend ''sendPhoto'' ''photo'' ''photo.PNG'']"
    by (simp add: ex_env_refused_def ex_defs auth_defs upload_defs)
  obtain r2 c2 where run2:
    "handleUploadRequest ex_runtime ex_env_unreachable ex_request ex_config ex_store
      = Inr (r2, ex_store, c2)" "c2 = [TgSend ''sendPhoto'' ''photo'' ''photo.PNG'']"
    by (simp add: ex_env_unreachable_def ex_defs auth_defs upload_defs)
  obtain r3 where run3:
    "handleUploadRequest ex_runtime ex_env ex_request_no_file ex_config ex_store
      = Inr (r3, ex_store, [])"
    by (simp add: ex_request_no_file_def ex_defs auth_defs upload_defs)
  have "r1 = json_response 502 (UploadFailed msg_tg_config)"
    using upload_failure_status [OF auth(1) post(1) run1(1)] reach
    by (simp add: ex_env_refused_def ex_defs)
  moreover have "r2 = json_response 504 (UploadFailed ''Failed to fetch'')"
    using upload_failure_status [OF auth(2) post(1) run2(1)] reach
    by (simp add: ex_env_unreachable_def ex_defs msg_defs)
  moreover have "r3 = json_response 500 (UploadFailed msg_no_file)"
    using upload_failure_status [OF auth(3) post(2) run3]
    by (simp add: ex_request_no_file_def ex_defs)
  ultimately show ?thesis using run1 run2 run3 by simp
qed

text \<open>
  C9 as stated fails where Telegram is unreachable and \<open>fetch\<close> says so in other words:
  the \<open>catch\<close> block recognises one message only, and answers this failure with 500.
\<close>

theorem unreachable_fetch_answered_500:
  "handleUploadRequest ex_runtime ex_env_lost ex_request ex_config ex_store
     = Inr (json_response 500 (UploadFailed ''Network connection lost.''), ex_store,
            [TgSend ''sendPhoto'' ''photo'' ''photo.PNG''])
   \<and> tg_send ex_env_lost = Inl (Exn False ''Network connection lost.'')"
  by (simp add: ex_env_lost_def ex_defs auth_defs upload_defs upload_failure_def
      upload_status_def msg_defs)

section \<open>Delete Flow\<close>

lemmas delete_defs =
  handleDeleteRequest_def delete_try_def delete_message_def delete_text_def
  db_first_by_url_def db_delete_by_url_def json_response_def json_headers_def
  template_def of_option_def Let_def

lemma delete_open:
  assumes "auth_blocked rt (now ev) request conf = Inr False"
  shows "handleDeleteRequest rt ev request conf st =
    (case delete_try ev request conf st of
       (Inr r, st', cs) \<Rightarrow> Inr (r, st', cs)
     | (Inl error, st', cs) \<Rightarrow> Inr (delete_failure error, st', cs))"
  using assms by (simp add: handleDeleteRequest_def)

lemma handleDeleteRequest_total: "\<exists>out. handleDeleteRequest rt ev request conf st = Inr out"
  using auth_blocked_total [of rt "now ev" request conf]
  by (auto simp: handleDeleteRequest_def split: prod.splits sum.splits bool.splits)

lemma db_first_by_url_present:
  "u \<in> set (map url rows) \<Longrightarrow> \<exists>file. db_first_by_url u rows = Some file \<and> url file = u \<and> file \<in> set rows"
  by (induction rows) (auto simp: db_first_by_url_def)

lemma db_first_by_url_absent:
  "u \<notin> set (map url rows) \<Longrightarrow> db_first_by_url u rows = None"
  by (induction rows) (auto simp: db_first_by_url_def)

lemma db_delete_by_url_set:
  "set (db_delete_by_url u rows) = {r \<in> set rows. url r \<noteq> u}"
  by (auto simp: db_delete_by_url_def)

lemma db_delete_by_url_gone: "u \<notin> set (map url (db_delete_by_url u rows))"
  by (auto simp: db_delete_by_url_def)

lemma delete_found:
  assumes "auth_blocked rt (now ev) request conf = Inr False"
    and "req_json request = Inr b" "json_destructure b ''url'' = Inr (Some (JStr u))" "u \<noteq> []"
    and "db_read_fault ev = None" "db_write_fault ev = None"
    and "db_first_by_url u (files st) = Some file"
  shows "handleDeleteRequest rt ev request conf st =
    Inr (json_response 200 (DeleteOk (delete_text (delete_message ev))),
         st\<lparr>files := db_delete_by_url u (files st)\<rparr>,
         [DbSelectByUrl u, TgDeleteMessage (tgChatId conf) (message_id file), DbDeleteByUrl u])"
  using assms by (simp add: delete_open delete_try_def)

lemma delete_not_found:
  assumes "auth_blocked rt (now ev) request conf = Inr False"
    and "req_json request = Inr b" "json_destructure b ''url'' = Inr (Some (JStr u))" "u \<noteq> []"
    and "db_read_fault ev = None"
    and "db_first_by_url u (files st) = None"
  shows "handleDeleteRequest rt ev request conf st =
    Inr (json_response 404 (ErrorJson msg_file_missing), st, [DbSelectByUrl u])"
  using assms by (simp add: delete_open delete_try_def)

lemma failed_text_differs: "msg_db_deleted_tg_failed @ m \<noteq> msg_delete_ok"
  by (simp add: msg_db_deleted_tg_failed_def msg_delete_ok_def)

lemma delete_text_ok: "delete_text None = msg_delete_ok"
  by (simp add: delete_text_def of_option_def)

lemma delete_text_failed: "m \<noteq> [] \<Longrightarrow> delete_text (Some m) = msg_db_deleted_tg_failed @ m"
  by (simp add: delete_text_def of_option_def)

text \<open>The success text is given exactly when no error was caught, or the error caught had
  an empty message.\<close>

lemma delete_text_ok_iff:
  "(delete_text deleteError = msg_delete_ok) = (deleteError = None \<or> deleteError = Some [])"
  by (cases deleteError)
    (auto simp: delete_text_def of_option_def failed_text_differs)

lemma delete_message_None_iff:
  "(delete_message ev = None) = (\<exists>tg. tg_deleteMessage ev = Inr tg \<and> delete_ok tg)"
  by (auto simp: delete_message_def split: sum.splits)

lemma delete_message_refused:
  "tg_deleteMessage ev = Inr tg \<Longrightarrow> \<not> delete_ok tg \<Longrightarrow> delete_json tg = Inr (JObj kvs)
   \<Longrightarrow> delete_message ev = Some (msg_tg_delete_failed @ template (map_of kvs ''description''))"
  by (simp add: delete_message_def json_field_def)

lemma tg_delete_failed_nonempty: "msg_tg_delete_failed @ d \<noteq> []"
  by (simp add: msg_tg_delete_failed_def)

text \<open>
  A delete request that passed the authentication check and names, as a non-empty string, a
  URL of the index: provided the two statements on the index complete, every row under that
  URL is deleted and every other row kept, whatever Telegram answered, and the response is
  200 with \<open>success: true\<close>. Its message, by what the world answered: the success text
  when Telegram deleted the message; the failure text followed by Telegram's description
  when Telegram refused (which includes a message already gone); the failure text followed
  by the message of the error when \<open>fetch\<close> or the reading of the refusal threw one with a
  message, and the success text when that message was empty.
\<close>

lemma delete_outcome:
  assumes auth: "auth_blocked rt (now ev) request conf = Inr False"
    and body: "req_json request = Inr b" "json_destructure b ''url'' = Inr (Some (JStr u))"
    and nonempty: "u \<noteq> []"
    and present: "u \<in> set (map url (files st))"
    and db: "db_read_fault ev = None" "db_write_fault ev = None"
  shows "\<exists>frow text.
      handleDeleteRequest rt ev request conf st =
        Inr (json_response 200 (DeleteOk text),
             st\<lparr>files := db_delete_by_url u (files st)\<rparr>,
             [DbSelectByUrl u, TgDeleteMessage (tgChatId conf) (message_id frow),
              DbDeleteByUrl u])
      \<and> frow \<in> set (files st) \<and> url frow = u
      \<and> u \<notin> set (map url (db_delete_by_url u (files st)))
      \<and> set (db_delete_by_url u (files st)) = {r \<in> set (files st). url r \<noteq> u}
      \<and> ((\<exists>tg. tg_deleteMessage ev = Inr tg \<and> delete_ok tg) \<longrightarrow> text = msg_delete_ok)
      \<and> (\<forall>tg kvs. tg_deleteMessage ev = Inr tg \<and> \<not> delete_ok tg
             \<and> delete_json tg = Inr (JObj kvs)
           \<longrightarrow> text = msg_db_deleted_tg_failed @ msg_tg_delete_failed
                        @ template (map_of kvs ''description'')
               \<and> text \<noteq> msg_delete_ok)
      \<and> (\<forall>tg. tg_deleteMessage ev = Inr tg \<and> \<not> delete_ok tg
             \<and> delete_json tg = Inr JNull
           \<longrightarrow> text = msg_db_deleted_tg_failed
                        @ ''Cannot read properties of null (reading ''
                        @ quoted ''description'' @ '')''
               \<and> text \<noteq> msg_delete_ok)
      \<and> (\<forall>e. tg_deleteMessage ev = Inl e
           \<longrightarrow> text = (if message e = [] then msg_delete_ok
                       else msg_db_deleted_tg_failed @ message e))
      \<and> (\<forall>tg e. tg_deleteMessage ev = Inr tg \<and> \<not> delete_ok tg \<and> delete_json tg = Inl e
           \<longrightarrow> text = (if message e = [] then msg_delete_ok
                       else msg_db_deleted_tg_failed @ message e))"
proof -
  from db_first_by_url_present [OF present] obtain frow where
    frow: "db_first_by_url u (files st) = Some frow" "url frow = u" "frow \<in> set (files st)"
    by blast
  let ?text = "delete_text (delete_message ev)"
  note run = delete_found [OF auth body nonempty db frow(1)]
  have caught: "delete_text (Some m) = (if m = [] then msg_delete_ok
      else msg_db_deleted_tg_failed @ m)" for m
    by (simp add: delete_text_def of_option_def)
  have ok: "?text = msg_delete_ok" if "\<exists>tg. tg_deleteMessage ev = Inr tg \<and> delete_ok tg"
    using that delete_message_None_iff [of ev] by (simp add: delete_text_ok)
  have refused: "?text = msg_db_deleted_tg_failed @ msg_tg_delete_failed
                        @ template (map_of kvs ''description'')
               \<and> ?text \<noteq> msg_delete_ok"
    if "tg_deleteMessage ev = Inr tg \<and> \<not> delete_ok tg \<and> delete_json tg = Inr (JObj kvs)"
    for tg kvs
  proof -
    let ?m = "msg_tg_delete_failed @ template (map_of kvs ''description'')"
    from that have "delete_message ev = Some ?m"
      using delete_message_refused [of ev tg kvs] by blast
    then have "?text = msg_db_deleted_tg_failed @ ?m"
      using delete_text_failed [OF tg_delete_failed_nonempty, of "template (map_of kvs ''description'')"]
      by simp
    then show ?thesis
      using failed_text_differs [of ?m] by simp
  qed
  have null_body: "?text = msg_db_deleted_tg_failed
                        @ ''Cannot read properties of null (reading ''
                        @ quoted ''description'' @ '')''
               \<and> ?text \<noteq> msg_delete_ok"
    if "tg_deleteMessage ev = Inr tg \<and> \<not> delete_ok tg \<and> delete_json tg = Inr JNull" for tg
  proof -
    let ?m = "''Cannot read properties of null (reading '' @ quoted ''description'' @ '')''"
    from that have "delete_message ev = Some ?m"
      by (simp add: delete_message_def json_field_def)
    then have "?text = msg_db_deleted_tg_failed @ ?m"
      by (simp add: caught)
    then show ?thesis
      using failed_text_differs [of ?m] by simp
  qed
  have fetch_threw: "?text = (if message e = [] then msg_delete_ok
      else msg_db_deleted_tg_failed @ message e)" if "tg_deleteMessage ev = Inl e" for e
    using that by (simp add: delete_message_def caught)
  have json_threw: "?text = (if message e = [] then msg_delete_ok
      else msg_db_deleted_tg_failed @ message e)"
    if "tg_deleteMessage ev = Inr tg \<and> \<not> delete_ok tg \<and> delete_json tg = Inl e" for tg e
    using that by (simp add: delete_message_def caught)
  show ?thesis
    apply (rule exI [of _ frow], rule exI [of _ ?text])
    apply (intro conjI allI impI)
    subgoal by (rule run)
    subgoal by (rule frow(3))
    subgoal by (rule frow(2))
    subgoal by (rule db_delete_by_url_gone)
    subgoal by (rule db_delete_by_url_set)
    subgoal by (rule ok)
    subgoal using refused by blast
    subgoal using refused by blast
    subgoal using null_body by blast
    subgoal using null_body by blast
    subgoal using fetch_threw by blast
    subgoal using json_threw by blast
    done
qed

lemmas delete_ex_defs = ex_env_gone_def ex_env_silent_def ex_store_full_def


text \<open>
  C8. Two delete requests for the same URL, both authorised, the URL a non-empty string,
  the statements on the index completing: the first is answered 200 or 404 and leaves no
  row under the URL; the second, run on the store the first left, is answered 404, leaves
  the store as it is, and calls nothing but the lookup. No delete request ends in an
  uncaught exception (\<open>handleDeleteRequest_total\<close>).
\<close>

theorem delete_twice:
  assumes auth: "auth_blocked rt (now ev1) request conf = Inr False"
      "auth_blocked rt (now ev2) request conf = Inr False"
    and body: "req_json request = Inr b" "json_destructure b ''url'' = Inr (Some (JStr u))"
    and nonempty: "u \<noteq> []"
    and db: "db_read_fault ev1 = None" "db_write_fault ev1 = None" "db_read_fault ev2 = None"
  shows "\<exists>r1 st1 cs1.
      handleDeleteRequest rt ev1 request conf st = Inr (r1, st1, cs1)
      \<and> (status r1 = 200 \<or> status r1 = 404)
      \<and> u \<notin> set (map url (files st1))
      \<and> handleDeleteRequest rt ev2 request conf st1 =
          Inr (json_response 404 (ErrorJson msg_file_missing), st1, [DbSelectByUrl u])"
proof (cases "db_first_by_url u (files st)")
  case None
  then have absent: "u \<notin> set (map url (files st))"
    using db_first_by_url_present [of u "files st"] by auto
  have first: "handleDeleteRequest rt ev1 request conf st =
      Inr (json_response 404 (ErrorJson msg_file_missing), st, [DbSelectByUrl u])"
    by (rule delete_not_found [OF auth(1) body nonempty db(1) None])
  have second: "handleDeleteRequest rt ev2 request conf st =
      Inr (json_response 404 (ErrorJson msg_file_missing), st, [DbSelectByUrl u])"
    by (rule delete_not_found [OF auth(2) body nonempty db(3) None])
  from first second absent show ?thesis
    by (simp add: json_response_def)
next
  case (Some frow)
  let ?st1 = "st\<lparr>files := db_delete_by_url u (files st)\<rparr>"
  have first: "handleDeleteRequest rt ev1 request conf st =
      Inr (json_response 200 (DeleteOk (delete_text (delete_message ev1))), ?st1,
           [DbSelectByUrl u, TgDeleteMessage (tgChatId conf) (message_id frow),
            DbDeleteByUrl u])"
    by (rule delete_found [OF auth(1) body nonempty db(1,2) Some])
  have gone: "u \<notin> set (map url (files ?st1))"
    using db_delete_by_url_gone [of u "files st"] by simp
  then have "db_first_by_url u (files ?st1) = None"
    by (rule db_first_by_url_absent)
  then have second: "handleDeleteRequest rt ev2 request conf ?st1 =
      Inr (json_response 404 (ErrorJson msg_file_missing), ?st1, [DbSelectByUrl u])"
    by (rule delete_not_found [OF auth(2) body nonempty db(3)])
  from first second gone show ?thesis
    by (simp add: json_response_def)
qed

text \<open>Deleting the same file twice.\<close>

theorem delete_twice_witness:
  "handleDeleteRequest ex_runtime ex_env ex_request ex_config ex_store_full =
     Inr (json_response 200 (DeleteOk msg_delete_ok), ex_store,
          [DbSelectByUrl ''https://host/169.png'', TgDeleteMessage ''42'' 7,
           DbDeleteByUrl ''https://host/169.png''])
   \<and> handleDeleteRequest ex_runtime ex_env_gone ex_request ex_config ex_store =
     Inr (json_response 404 (ErrorJson msg_file_missing), ex_store,
          [DbSelectByUrl ''https://host/169.png''])"
proof -
  have auth: "auth_blocked ex_runtime (now ex_env) ex_request ex_config = Inr False"
    "auth_blocked ex_runtime (now ex_env_gone) ex_request ex_config = Inr False"
    by (simp_all add: delete_ex_defs ex_defs auth_defs)
  have body: "req_json ex_request
      = Inr (JObj [(''url'', JStr ''https://host/169.png''), (''query'', JStr ''PHO'')])"
    "json_destructure (JObj [(''url'', JStr ''https://host/169.png''), (''query'', JStr ''PHO'')])
       ''url'' = Inr (Some (JStr ''https://host/169.png''))"
    by (simp_all add: ex_defs json_destructure_def)
  have db: "db_read_fault ex_env = None" "db_write_fault ex_env = None"
    "db_read_fault ex_env_gone = None"
    by (simp_all add: delete_ex_defs ex_defs)
  have first: "handleDeleteRequest ex_runtime ex_env ex_request ex_config ex_store_full =
     Inr (json_response 200 (DeleteOk msg_delete_ok), ex_store,
          [DbSelectByUrl ''https://host/169.png'', TgDeleteMessage ''42'' 7,
           DbDeleteByUrl ''https://host/169.png''])"
    by (simp add: delete_ex_defs ex_defs auth_defs delete_defs)
  from delete_twice [OF auth body _ db, of ex_store_full] first
  show ?thesis by auto
qed

section \<open>Retrieve Flow\<close>

lemmas file_defs =
  handleFileRequest_def file_try_def file_response_def file_headers_def db_first_by_url_def
  text_response_def
  text_headers_def of_option_def Let_def

text \<open>
  C4. When the cache answers with a response stored under the request URL, that response
  is returned as it is, the store is untouched, and the only call made is the cache
  lookup: no statement on the index, no request to Telegram. The rows of the index do not
  matter: the same holds with any table in their place, the one without the file's row
  included.
\<close>

theorem cache_hit_served_verbatim:
  assumes "cache_match_fault ev = None"
    and "map_of (edge_cache st) (req_url request) = Some cached"
  shows "handleFileRequest ev request conf st = Inr (cached, st, [CacheMatch (req_url request)])
    \<and> filter is_index_call [CacheMatch (req_url request)] = []
    \<and> filter is_backend_call [CacheMatch (req_url request)] = []
    \<and> (\<forall>rows. handleFileRequest ev request conf (st\<lparr>files := rows\<rparr>)
          = Inr (cached, st\<lparr>files := rows\<rparr>, [CacheMatch (req_url request)]))"
  using assms by (simp add: handleFileRequest_def file_try_def Let_def)

text \<open>A cached response for a URL that has no row in the index.\<close>

theorem cache_hit_served_verbatim_witness:
  "db_first_by_url ''https://host/169.png'' (files ex_store_cached) = None
   \<and> handleFileRequest ex_env ex_request ex_config ex_store_cached
     = Inr (ex_cached, ex_store_cached, [CacheMatch ''https://host/169.png''])"
proof -
  have "cache_match_fault ex_env = None"
    by (simp add: ex_defs)
  moreover have "map_of (edge_cache ex_store_cached) (req_url ex_request) = Some ex_cached"
    by (simp add: ex_store_cached_def ex_defs)
  ultimately show ?thesis
    using cache_hit_served_verbatim [of ex_env ex_store_cached ex_request ex_cached ex_config]
    by (simp add: ex_store_cached_def ex_defs db_first_by_url_def)
qed

lemma file_catch:
  "file_try ev request conf st = (Inl e, st', cs) \<Longrightarrow>
    handleFileRequest ev request conf st = Inr (text_response 500 msg_internal_error, st', cs)"
  by (simp add: handleFileRequest_def)

lemma handleFileRequest_total:
  "\<exists>out. handleFileRequest ev request conf st = Inr out"
  by (auto simp: handleFileRequest_def split: prod.splits sum.splits)

lemma file_try_store_on_throw:
  "file_try ev request conf st = (Inl e, st', cs) \<Longrightarrow> st' = st"
  unfolding file_try_def Let_def
  by (auto split: option.splits sum.splits if_splits tg_reply.splits)

lemma file_not_found:
  assumes "cache_match_fault ev = None" "map_of (edge_cache st) (req_url request) = None"
    "db_read_fault ev = None" "db_first_by_url (req_url request) (files st) = None"
  shows "handleFileRequest ev request conf st =
    Inr (text_response 404 msg_file_missing, st,
         [CacheMatch (req_url request), DbSelectByUrl (req_url request)])"
  using assms by (simp add: handleFileRequest_def file_try_def Let_def)

lemma file_getFile_failed:
  assumes "cache_match_fault ev = None" "map_of (edge_cache st) (req_url request) = None"
    "db_read_fault ev = None" "db_first_by_url (req_url request) (files st) = Some frow"
    "tg_getFile ev = Inr tg" "\<not> getFile_ok tg"
  shows "handleFileRequest ev request conf st =
    Inr (text_response 500 msg_get_file_failed, st,
         [CacheMatch (req_url request), DbSelectByUrl (req_url request),
          TgGetFile (fileId frow)])"
  using assms by (simp add: handleFileRequest_def file_try_def Let_def)

lemma file_no_path:
  assumes "cache_match_fault ev = None" "map_of (edge_cache st) (req_url request) = None"
    "db_read_fault ev = None" "db_first_by_url (req_url request) (files st) = Some frow"
    "tg_getFile ev = Inr tg" "getFile_ok tg" "getFile_json tg = Inr (Reply result)"
    "result = None \<or> result = Some None \<or> result = Some (Some [])"
  shows "handleFileRequest ev request conf st =
    Inr (text_response 404 msg_bad_path, st,
         [CacheMatch (req_url request), DbSelectByUrl (req_url request),
          TgGetFile (fileId frow)])"
  using assms by (auto simp: handleFileRequest_def file_try_def of_option_def Let_def)

lemma file_download_failed:
  assumes "cache_match_fault ev = None" "map_of (edge_cache st) (req_url request) = None"
    "db_read_fault ev = None" "db_first_by_url (req_url request) (files st) = Some frow"
    "tg_getFile ev = Inr tg" "getFile_ok tg" "getFile_json tg = Inr (Reply (Some (Some p)))"
    "p \<noteq> []" "tg_download ev = Inr d" "\<not> download_ok d"
  shows "handleFileRequest ev request conf st =
    Inr (text_response 500 msg_download_failed, st,
         [CacheMatch (req_url request), DbSelectByUrl (req_url request),
          TgGetFile (fileId frow), TgDownload p])"
  using assms by (simp add: handleFileRequest_def file_try_def of_option_def Let_def)

lemma file_try_throws:
  assumes "cache_match_fault ev = Some e
    \<or> (cache_match_fault ev = None \<and> map_of (edge_cache st) (req_url request) = None
       \<and> (db_read_fault ev = Some e
          \<or> (db_read_fault ev = None
             \<and> (\<exists>frow. db_first_by_url (req_url request) (files st) = Some frow)
             \<and> (tg_getFile ev = Inl e
                \<or> (\<exists>tg. tg_getFile ev = Inr tg \<and> getFile_ok tg
                      \<and> (getFile_json tg = Inl e
                         \<or> (\<exists>p. getFile_json tg = Inr (Reply (Some (Some p))) \<and> p \<noteq> []
                               \<and> (tg_download ev = Inl e
                                  \<or> (\<exists>d. tg_download ev = Inr d \<and> download_ok d
                                        \<and> cache_put_fault ev = Some e)))))))))"
  shows "\<exists>e' cs. file_try ev request conf st = (Inl e', st, cs)"
  using assms split_on_nonempty [of "CHR ''.''" "req_url request"]
  unfolding file_try_def Let_def file_response_def file_headers_def pop_def
  by (auto simp: of_option_def split: option.splits)


lemma file_answers:
  assumes "cache_miss ev request st" "handleFileRequest ev request conf st = Inr (r, st', cs)"
  shows "(status r = 200 \<and> (\<exists>bytes. body r = Bytes bytes))
    \<or> r = text_response 404 msg_file_missing
    \<or> r = text_response 500 msg_get_file_failed
    \<or> r = text_response 404 msg_bad_path
    \<or> r = text_response 500 msg_download_failed
    \<or> r = text_response 500 msg_internal_error"
  using assms
  unfolding cache_miss_def handleFileRequest_def file_try_def Let_def file_response_def
    file_headers_def
  by (auto split: option.splits sum.splits if_splits tg_reply.splits js_val.splits prod.splits)

text \<open>
  C7. On a cache miss: no row for the URL gives 404; a row but no path from \<open>getFile\<close>
  gives 404; \<open>getFile\<close> answering not ok gives 500; the download answering not ok gives
  500. Every exception thrown inside the \<open>try\<close> block (by the cache, the index, either
  \<open>fetch\<close>, or the parsing of Telegram's reply) gives 500 with one fixed text, whatever the
  exception says, and leaves the store as it was; so on a miss every response other than the
  file itself carries one of five fixed texts. The upload handler, and the delete handler
  outside its one rewritten case, put the message of the exception in the body.
\<close>

theorem retrieve_error_mapping:
  "(cache_miss ev request st \<and> db_read_fault ev = None
      \<and> db_first_by_url (req_url request) (files st) = None
     \<longrightarrow> handleFileRequest ev request conf st =
          Inr (text_response 404 msg_file_missing, st,
               [CacheMatch (req_url request), DbSelectByUrl (req_url request)]))
   \<and> (\<forall>frow tg result. record_found ev request st frow \<and> tg_getFile ev = Inr tg
         \<and> getFile_ok tg \<and> getFile_json tg = Inr (Reply result)
         \<and> (result = None \<or> result = Some None \<or> result = Some (Some []))
     \<longrightarrow> handleFileRequest ev request conf st =
          Inr (text_response 404 msg_bad_path, st,
               [CacheMatch (req_url request), DbSelectByUrl (req_url request),
                TgGetFile (fileId frow)]))
   \<and> (\<forall>frow tg. record_found ev request st frow \<and> tg_getFile ev = Inr tg
         \<and> \<not> getFile_ok tg
     \<longrightarrow> handleFileRequest ev request conf st =
          Inr (text_response 500 msg_get_file_failed, st,
               [CacheMatch (req_url request), DbSelectByUrl (req_url request),
                TgGetFile (fileId frow)]))
   \<and> (\<forall>frow p d. record_found ev request st frow \<and> path_resolved ev p
         \<and> tg_download ev = Inr d \<and> \<not> download_ok d
     \<longrightarrow> handleFileRequest ev request conf st =
          Inr (text_response 500 msg_download_failed, st,
               [CacheMatch (req_url request), DbSelectByUrl (req_url request),
                TgGetFile (fileId frow), TgDownload p]))
   \<and> (\<forall>e st' cs. file_try ev request conf st = (Inl e, st', cs)
     \<longrightarrow> handleFileRequest ev request conf st =
          Inr (text_response 500 msg_internal_error, st, cs))
   \<and> (\<forall>e. cache_match_fault ev = Some e
     \<longrightarrow> (\<exists>cs. handleFileRequest ev request conf st =
          Inr (text_response 500 msg_internal_error, st, cs)))
   \<and> (\<forall>e. cache_miss ev request st \<and> db_read_fault ev = Some e
     \<longrightarrow> (\<exists>cs. handleFileRequest ev request conf st =
          Inr (text_response 500 msg_internal_error, st, cs)))
   \<and> (\<forall>e frow. record_found ev request st frow \<and> tg_getFile ev = Inl e
     \<longrightarrow> (\<exists>cs. handleFileRequest ev request conf st =
          Inr (text_response 500 msg_internal_error, st, cs)))
   \<and> (\<forall>e frow tg. record_found ev request st frow \<and> tg_getFile ev = Inr tg
         \<and> getFile_ok tg \<and> getFile_json tg = Inl e
     \<longrightarrow> (\<exists>cs. handleFileRequest ev request conf st =
          Inr (text_response 500 msg_internal_error, st, cs)))
   \<and> (\<forall>e frow p. record_found ev request st frow \<and> path_resolved ev p
         \<and> tg_download ev = Inl e
     \<longrightarrow> (\<exists>cs. handleFileRequest ev request conf st =
          Inr (text_response 500 msg_internal_error, st, cs)))
   \<and> (\<forall>e frow p d. record_found ev request st frow \<and> path_resolved ev p
         \<and> tg_download ev = Inr d \<and> download_ok d \<and> cache_put_fault ev = Some e
     \<longrightarrow> (\<exists>cs. handleFileRequest ev request conf st =
          Inr (text_response 500 msg_internal_error, st, cs)))
   \<and> (\<forall>r st' cs. cache_miss ev request st
         \<and> handleFileRequest ev request conf st = Inr (r, st', cs) \<and> status r \<noteq> 200
     \<longrightarrow> body r = Text msg_file_missing \<or> body r = Text msg_get_file_failed
         \<or> body r = Text msg_bad_path \<or> body r = Text msg_download_failed
         \<or> body r = Text msg_internal_error)
   \<and> (\<forall>e. body (upload_failure e) = UploadFailed (message e))
   \<and> (\<forall>e. \<not> js_includes (message e) ''message to delete not found''
     \<longrightarrow> body (delete_failure e) = ErrorJson (message e))"
proof -
  have thrown: "\<exists>cs. handleFileRequest ev request conf st =
      Inr (text_response 500 msg_internal_error, st, cs)"
    if "\<exists>e cs. file_try ev request conf st = (Inl e, st, cs)"
    using that file_catch [of ev request conf st _ st] by blast
  show ?thesis
  proof (intro conjI allI impI)
    fix e st' cs
    assume t: "file_try ev request conf st = (Inl e, st', cs)"
    from file_try_store_on_throw [OF t] file_catch [OF t]
    show "handleFileRequest ev request conf st =
          Inr (text_response 500 msg_internal_error, st, cs)" by simp
  next
    fix r st' cs
    assume "cache_miss ev request st
         \<and> handleFileRequest ev request conf st = Inr (r, st', cs) \<and> status r \<noteq> 200"
    then show "body r = Text msg_file_missing \<or> body r = Text msg_get_file_failed
         \<or> body r = Text msg_bad_path \<or> body r = Text msg_download_failed
         \<or> body r = Text msg_internal_error"
      using file_answers [of ev request st conf r st' cs]
      by (auto simp: text_response_def)
  next
    fix e
    show "body (upload_failure e) = UploadFailed (message e)"
      by (simp add: upload_failure_def json_response_def)
  next
    fix e
    assume "\<not> js_includes (message e) ''message to delete not found''"
    then show "body (delete_failure e) = ErrorJson (message e)"
      by (simp add: delete_failure_def json_response_def)
  next
    fix e
    assume "cache_match_fault ev = Some e"
    then show "\<exists>cs. handleFileRequest ev request conf st =
          Inr (text_response 500 msg_internal_error, st, cs)"
      by (intro thrown file_try_throws [where e = e]) simp
  next
    fix e
    assume "cache_miss ev request st \<and> db_read_fault ev = Some e"
    then show "\<exists>cs. handleFileRequest ev request conf st =
          Inr (text_response 500 msg_internal_error, st, cs)"
      by (intro thrown file_try_throws [where e = e]) (simp add: cache_miss_def)
  next
    fix e frow
    assume "record_found ev request st frow \<and> tg_getFile ev = Inl e"
    then show "\<exists>cs. handleFileRequest ev request conf st =
          Inr (text_response 500 msg_internal_error, st, cs)"
      by (intro thrown file_try_throws [where e = e]) (simp add: cache_miss_def record_found_def)
  next
    fix e frow tg
    assume "record_found ev request st frow \<and> tg_getFile ev = Inr tg
         \<and> getFile_ok tg \<and> getFile_json tg = Inl e"
    then show "\<exists>cs. handleFileRequest ev request conf st =
          Inr (text_response 500 msg_internal_error, st, cs)"
      by (intro thrown file_try_throws [where e = e]) (simp add: cache_miss_def record_found_def)
  next
    fix e frow p
    assume "record_found ev request st frow \<and> path_resolved ev p \<and> tg_download ev = Inl e"
    then show "\<exists>cs. handleFileRequest ev request conf st =
          Inr (text_response 500 msg_internal_error, st, cs)"
      by (intro thrown file_try_throws [where e = e])
        (auto simp: cache_miss_def record_found_def path_resolved_def split: sum.splits)
  next
    fix e frow p d
    assume "record_found ev request st frow \<and> path_resolved ev p
         \<and> tg_download ev = Inr d \<and> download_ok d \<and> cache_put_fault ev = Some e"
    then show "\<exists>cs. handleFileRequest ev request conf st =
          Inr (text_response 500 msg_internal_error, st, cs)"
      by (intro thrown file_try_throws [where e = e])
        (auto simp: cache_miss_def record_found_def path_resolved_def split: sum.splits)
  next
    assume "cache_miss ev request st \<and> db_read_fault ev = None
      \<and> db_first_by_url (req_url request) (files st) = None"
    then show "handleFileRequest ev request conf st =
          Inr (text_response 404 msg_file_missing, st,
               [CacheMatch (req_url request), DbSelectByUrl (req_url request)])"
      by (simp add: cache_miss_def file_not_found)
  next
    fix frow tg result
    assume "record_found ev request st frow \<and> tg_getFile ev = Inr tg
         \<and> getFile_ok tg \<and> getFile_json tg = Inr (Reply result)
         \<and> (result = None \<or> result = Some None \<or> result = Some (Some []))"
    then show "handleFileRequest ev request conf st =
          Inr (text_response 404 msg_bad_path, st,
               [CacheMatch (req_url request), DbSelectByUrl (req_url request),
                TgGetFile (fileId frow)])"
      using file_no_path [of ev st request frow tg result conf]
      by (simp add: cache_miss_def record_found_def)
  next
    fix frow tg
    assume "record_found ev request st frow \<and> tg_getFile ev = Inr tg \<and> \<not> getFile_ok tg"
    then show "handleFileRequest ev request conf st =
          Inr (text_response 500 msg_get_file_failed, st,
               [CacheMatch (req_url request), DbSelectByUrl (req_url request),
                TgGetFile (fileId frow)])"
      using file_getFile_failed [of ev st request frow tg conf]
      by (simp add: cache_miss_def record_found_def)
  next
    fix frow p d
    assume "record_found ev request st frow \<and> path_resolved ev p
         \<and> tg_download ev = Inr d \<and> \<not> download_ok d"
    then show "handleFileRequest ev request conf st =
          Inr (text_response 500 msg_download_failed, st,
               [CacheMatch (req_url request), DbSelectByUrl (req_url request),
                TgGetFile (fileId frow), TgDownload p])"
      using file_download_failed [of ev st request frow _ p d conf]
      by (auto simp: cache_miss_def record_found_def path_resolved_def split: sum.splits)
  qed
qed


lemmas file_ex_defs =
  ex_env_no_path_def ex_env_download_failed_def ex_env_getFile_throws_def ex_store_full_def

text \<open>No row; a row without a path; a failed download; \<open>fetch\<close> throwing.\<close>

theorem retrieve_error_mapping_witness:
  "handleFileRequest ex_env ex_request ex_config ex_store =
     Inr (text_response 404 msg_file_missing, ex_store,
          [CacheMatch ''https://host/169.png'', DbSelectByUrl ''https://host/169.png''])
   \<and> handleFileRequest ex_env_no_path ex_request ex_config ex_store_full =
     Inr (text_response 404 msg_bad_path, ex_store_full,
          [CacheMatch ''https://host/169.png'', DbSelectByUrl ''https://host/169.png'',
           TgGetFile ''large''])
   \<and> handleFileRequest ex_env_download_failed ex_request ex_config ex_store_full =
     Inr (text_response 500 msg_download_failed, ex_store_full,
          [CacheMatch ''https://host/169.png'', DbSelectByUrl ''https://host/169.png'',
           TgGetFile ''large'', TgDownload ''photos/f.png''])
   \<and> (\<exists>cs. handleFileRequest ex_env_getFile_throws ex_request ex_config ex_store_full =
     Inr (text_response 500 msg_internal_error, ex_store_full, cs))"
proof -
  have u: "req_url ex_request = ''https://host/169.png''"
    by (simp add: ex_defs)
  have miss: "cache_miss ex_env ex_request ex_store"
    by (simp add: cache_miss_def ex_defs)
  have absent: "db_read_fault ex_env = None"
    "db_first_by_url (req_url ex_request) (files ex_store) = None"
    by (simp_all add: ex_defs db_first_by_url_def)
  have found: "record_found ex_env_no_path ex_request ex_store_full ex_row"
    "record_found ex_env_download_failed ex_request ex_store_full ex_row"
    "record_found ex_env_getFile_throws ex_request ex_store_full ex_row"
    by (simp_all add: record_found_def cache_miss_def file_ex_defs ex_defs db_first_by_url_def)
  have fid: "fileId ex_row = ''large''"
    by (simp add: ex_defs)
  have no_path: "tg_getFile ex_env_no_path
      = Inr \<lparr>getFile_ok = True, getFile_json = Inr (Reply (Some None))\<rparr>"
    by (simp add: file_ex_defs ex_defs)
  have path: "path_resolved ex_env_download_failed ''photos/f.png''"
    by (simp add: path_resolved_def file_ex_defs ex_defs)
  have dl: "tg_download ex_env_download_failed = Inr \<lparr>download_ok = False, download_body = []\<rparr>"
    by (simp add: file_ex_defs ex_defs)
  have thrown: "tg_getFile ex_env_getFile_throws = Inl (Exn True ''connect ECONNREFUSED 10.0.0.7'')"
    by (simp add: file_ex_defs ex_defs)
  have "handleFileRequest ex_env ex_request ex_config ex_store =
     Inr (text_response 404 msg_file_missing, ex_store,
          [CacheMatch ''https://host/169.png'', DbSelectByUrl ''https://host/169.png''])"
    using retrieve_error_mapping [of ex_env ex_request ex_store ex_config] miss absent u
    by simp
  moreover have "handleFileRequest ex_env_no_path ex_request ex_config ex_store_full =
     Inr (text_response 404 msg_bad_path, ex_store_full,
          [CacheMatch ''https://host/169.png'', DbSelectByUrl ''https://host/169.png'',
           TgGetFile ''large''])"
    using retrieve_error_mapping [of ex_env_no_path ex_request ex_store_full ex_config]
      found(1) no_path u fid
    by simp
  moreover have "handleFileRequest ex_env_download_failed ex_request ex_config ex_store_full =
     Inr (text_response 500 msg_download_failed, ex_store_full,
          [CacheMatch ''https://host/169.png'', DbSelectByUrl ''https://host/169.png'',
           TgGetFile ''large'', TgDownload ''photos/f.png''])"
    using retrieve_error_mapping [of ex_env_download_failed ex_request ex_store_full ex_config]
      found(2) path dl u fid
    by simp
  moreover have "\<exists>cs. handleFileRequest ex_env_getFile_throws ex_request ex_config ex_store_full =
     Inr (text_response 500 msg_internal_error, ex_store_full, cs)"
    using retrieve_error_mapping [of ex_env_getFile_throws ex_request ex_store_full ex_config]
      found(3) thrown
    by blast
  ultimately show ?thesis by simp
qed

text \<open>For comparison, the run that serves the file and stores the response in the
  cache.\<close>

lemma retrieve_serves_and_caches:
  "handleFileRequest ex_env ex_request ex_config ex_store_full =
     Inr (\<lparr>status = 200,
           headers = [(''Content-Type'', ''image/png''),
                      (''Cache-Control'', ''public, max-age=31536000''),
                      (''X-Content-Type-Options'', ''nosniff''),
                      (''Access-Control-Allow-Origin'', ''*''),
                      (''Content-Disposition'',
                         ''inline; filename*=UTF-8'' @ [CHR 0x27, CHR 0x27] @ ''photo.PNG'')],
           body = Bytes ''bytes''\<rparr>,
          ex_store_full\<lparr>edge_cache :=
            [(''https://host/169.png'',
              \<lparr>status = 200,
                headers = [(''Content-Type'', ''image/png''),
                      (''Cache-Control'', ''public, max-age=31536000''),
                      (''X-Content-Type-Options'', ''nosniff''),
                      (''Access-Control-Allow-Origin'', ''*''),
                      (''Content-Disposition'',
                         ''inline; filename*=UTF-8'' @ [CHR 0x27, CHR 0x27] @ ''photo.PNG'')],
                body = Bytes ''bytes''\<rparr>)]\<rparr>,
          [CacheMatch ''https://host/169.png'', DbSelectByUrl ''https://host/169.png'',
           TgGetFile ''large'', TgDownload ''photos/f.png'', CachePut ''https://host/169.png''])"
  by (simp add: file_defs file_ex_defs ex_defs pop_def js_or_def encodeURIComponent_def
      uri_unreserved_def)

section \<open>Search Flow\<close>



















lemma handleSearchRequest_total:
  "\<exists>out. handleSearchRequest rt ev request conf st = Inr out"
  using auth_blocked_total [of rt "now ev" request conf]
  by (auto simp: handleSearchRequest_def split: prod.splits sum.splits bool.splits)







end
